theory Spec2Isabelle
  imports Complex_Main "HOL-Library.Multiset"
begin

section \<open>Python values, exceptions and module namespaces\<close>

text \<open>
  The repository has two modules, \<^verbatim>\<open>text_to_speech.py\<close> (one function over the Azure speech
  SDK) and \<^verbatim>\<open>ibm_text_analysis.py\<close> (the class \<^verbatim>\<open>IBM_Watson\<close> over the Watson SDK).
  Exceptions are values of \<open>py_error\<close>; a computation that may raise returns
  \<open>py_error + 'a\<close> with \<open>Inl\<close> the exception.
\<close>

datatype py_error =
    NameError string      \<comment> \<open>a global name that is not bound\<close>
  | TypeError string      \<comment> \<open>calling a value that is not callable\<close>
  | Raised string         \<comment> \<open>any exception raised inside a vendor library, by its name\<close>

text \<open>
  A function body resolves a free name such as \<^verbatim>\<open>config\<close> in the globals of the module that
  defines it (and then in the builtins, which bind none of the names used here). A module's
  globals are the names bound by its top-level statements, in order.
\<close>

datatype py_value =
    PyModule string                                   \<comment> \<open>bound by \<^verbatim>\<open>import m as name\<close>\<close>
  | PyDef string                                      \<comment> \<open>bound by \<^verbatim>\<open>def\<close>, \<^verbatim>\<open>class\<close> or an imported class\<close>
  | PyCallable "string \<Rightarrow> py_error + string"          \<comment> \<open>a callable from strings to strings, as \<^verbatim>\<open>decouple.config\<close>\<close>

type_synonym namespace = "(string \<times> py_value) list"

definition load_global :: "namespace \<Rightarrow> string \<Rightarrow> py_error + py_value" where
  "load_global g name = (case map_of g name of None \<Rightarrow> Inl (NameError name) | Some v \<Rightarrow> Inr v)"

definition call_value :: "py_value \<Rightarrow> string \<Rightarrow> py_error + string" where
  "call_value v arg =
     (case v of PyCallable f \<Rightarrow> f arg | _ \<Rightarrow> Inl (TypeError ''object is not callable''))"

text \<open>\<^verbatim>\<open>name(arg)\<close>: resolve the name, then call what it is bound to.\<close>

definition call_global :: "namespace \<Rightarrow> string \<Rightarrow> string \<Rightarrow> py_error + string" where
  "call_global g name arg =
     (case load_global g name of Inl e \<Rightarrow> Inl e | Inr v \<Rightarrow> call_value v arg)"


section \<open>text_to_speech.py\<close>

text \<open>
  Line 1 of the module, \<^verbatim>\<open># from decouple import config\<close>, is a comment: the module's top level
  binds \<^verbatim>\<open>speechsdk\<close> (line 2) and \<^verbatim>\<open>create_speech_from_text\<close> (line 4) and nothing else.
\<close>

definition text_to_speech_globals :: namespace where
  "text_to_speech_globals =
     [(''speechsdk'', PyModule ''azure.cognitiveservices.speech''),
      (''create_speech_from_text'', PyDef ''create_speech_from_text'')]"

subsection \<open>The SDK's objects\<close>

text \<open>
  The event the SDK hands to a word-boundary callback. The callback reads five attributes.
  \<open>evt_audio_offset\<close> is an integer; the type of \<open>evt_duration\<close> is the SDK's and is
  passed through untouched, so it is a type parameter.
\<close>

record 'd evt =
  evt_audio_offset :: int
  evt_duration :: 'd
  evt_text :: string
  evt_text_offset :: int
  evt_word_length :: int

text \<open>
  The dictionary built by the callback, with its five keys. \<^verbatim>\<open>/\<close> on two Python integers is
  true division: the field holds the exact quotient (which Python rounds to the nearest double).
\<close>

record 'd word_boundary =
  audio_offset :: rat
  duration :: 'd
  "text" :: string
  text_offset :: int
  word_length :: int

datatype SpeechSynthesisOutputFormat =
    Raw8Khz8BitMonoMULaw
  | Riff16Khz16BitMonoPcm
  | Audio16Khz32KBitRateMonoMp3
  | Audio16Khz128KBitRateMonoMp3
  | Ogg16Khz16BitMonoOpus

datatype PropertyId =
    SpeechServiceResponse_RequestWordBoundary
  | SpeechServiceResponse_RequestSentenceBoundary

record speech_config =
  subscription :: string
  region :: string
  speech_synthesis_voice_name :: "string option"
  speech_synthesis_output_format :: "SpeechSynthesisOutputFormat option"
  properties :: "(PropertyId \<times> string) list"

datatype audio_output_config = AudioOutputConfig (filename: string)

record speech_synthesizer =
  synth_speech_config :: speech_config
  synth_audio_config :: audio_output_config
  word_boundary_connected :: bool

text \<open>What the function does to the outside world, in order.\<close>

datatype speech_call =
    Config_lookup string                               \<comment> \<open>\<^verbatim>\<open>config(key)\<close>, when \<^verbatim>\<open>config\<close> is bound\<close>
  | New_SpeechConfig string string                     \<comment> \<open>\<^verbatim>\<open>speechsdk.SpeechConfig(subscription, region)\<close>\<close>
  | Set_speech_synthesis_voice_name string             \<comment> \<open>line 42\<close>
  | Set_speech_synthesis_output_format SpeechSynthesisOutputFormat   \<comment> \<open>lines 43 to 45\<close>
  | Set_property PropertyId string                     \<comment> \<open>lines 46 to 49\<close>
  | New_AudioOutputConfig string                       \<comment> \<open>\<^verbatim>\<open>speechsdk.audio.AudioOutputConfig(filename)\<close>\<close>
  | New_SpeechSynthesizer speech_config audio_output_config   \<comment> \<open>lines 61 to 64; opens the output file\<close>
  | Connect_word_boundary                              \<comment> \<open>line 65\<close>
  | Speak_ssml speech_synthesizer string               \<comment> \<open>\<^verbatim>\<open>speech_synthesizer.speak_ssml(ssml)\<close>\<close>

text \<open>
  The speech SDK. Every constructor and setter may raise (the synthesizer's constructor, for
  one, when it cannot open the output file): \<open>sdk_raises\<close> gives the exception of a call, or
  \<open>None\<close> when it goes through. \<open>speak_ssml\<close> either raises or delivers the events of the
  synthesis to the connected callback, in the order in which they arrive.
\<close>

record 'd speech_sdk =
  sdk_raises :: "speech_call \<Rightarrow> py_error option"
  speak_ssml :: "speech_synthesizer \<Rightarrow> string \<Rightarrow> py_error + 'd evt list"

text \<open>
  A step gives its value or its exception, with the calls it made; \<open>next_do\<close> runs a step and
  then the rest, and an exception ends the run with the calls made up to there.
\<close>

type_synonym 'a traced = "(py_error + 'a) \<times> speech_call list"

definition next_do :: "'a traced \<Rightarrow> ('a \<Rightarrow> 'b traced) \<Rightarrow> 'b traced" where
  "next_do m k =
     (case m of
        (Inl e, cs) \<Rightarrow> (Inl e, cs)
      | (Inr x, cs) \<Rightarrow> (case k x of (r, cs') \<Rightarrow> (r, cs @ cs')))"

definition sdk_do :: "'d speech_sdk \<Rightarrow> speech_call \<Rightarrow> unit traced" where
  "sdk_do sdk c = (case sdk_raises sdk c of Some e \<Rightarrow> (Inl e, [c]) | None \<Rightarrow> (Inr (), [c]))"

text \<open>A use of the name \<^verbatim>\<open>speechsdk\<close>, and \<^verbatim>\<open>config(key)\<close>, under globals \<open>g\<close>.\<close>

definition use_speechsdk :: "namespace \<Rightarrow> unit traced" where
  "use_speechsdk g = (case load_global g ''speechsdk'' of Inl e \<Rightarrow> (Inl e, []) | Inr _ \<Rightarrow> (Inr (), []))"

definition config_lookup :: "namespace \<Rightarrow> string \<Rightarrow> string traced" where
  "config_lookup g key =
     (case load_global g ''config'' of
        Inl e \<Rightarrow> (Inl e, [])
      | Inr v \<Rightarrow> (call_value v key, [Config_lookup key]))"

subsection \<open>The callback (lines 27 to 34)\<close>

definition speech_synthesizer_word_boundary_cb ::
    "'d evt \<Rightarrow> 'd word_boundary list \<Rightarrow> 'd word_boundary list" where
  "speech_synthesizer_word_boundary_cb e word_boundaries =
     word_boundaries @
       [\<lparr> audio_offset = of_int (evt_audio_offset e + 5000) / 10000,
          duration = evt_duration e,
          text = evt_text e,
          text_offset = evt_text_offset e,
          word_length = evt_word_length e \<rparr>]"

subsection \<open>The SSML document (lines 54 to 58)\<close>

definition ssml_template_format :: "string \<Rightarrow> string \<Rightarrow> string" where
  "ssml_template_format voice txt =
     ''<speak version='1.0' xml:lang='en-US' xmlns='http://www.w3.org/2001/10/synthesis' xmlns:mstts='http://www.w3.org/2001/mstts'>''
     @ [CHR 0x0A] @ ''        <voice name='' @ [CHR 0x27] @ voice @ [CHR 0x27] @ ''>''
     @ [CHR 0x0A] @ ''            '' @ txt
     @ [CHR 0x0A] @ ''        </voice>''
     @ [CHR 0x0A] @ ''    </speak>''"

subsection \<open>create_speech_from_text (lines 4 to 70)\<close>

text \<open>
  The body, run with globals \<open>g\<close> against the SDK \<open>sdk\<close>. The result is the exception or
  the returned list, with the calls made up to there. The annotation of the nested function
  (line 27) and the call of line 36 use the name \<^verbatim>\<open>speechsdk\<close>; the arguments of line 36 are
  evaluated before the constructor is called.
\<close>

definition create_speech_from_text_in ::
    "namespace \<Rightarrow> 'd speech_sdk \<Rightarrow> string \<Rightarrow> string \<Rightarrow> 'd word_boundary list traced" where
  "create_speech_from_text_in g sdk txt output_filename =
     next_do (use_speechsdk g) (\<lambda>_.
     next_do (config_lookup g ''SPEECH_KEY'') (\<lambda>key.
     next_do (config_lookup g ''SERVICE_REGION'') (\<lambda>reg.
     next_do (sdk_do sdk (New_SpeechConfig key reg)) (\<lambda>_.
     let c0 = \<lparr> subscription = key, region = reg, speech_synthesis_voice_name = None,
                speech_synthesis_output_format = None, properties = [] \<rparr> in
     next_do (sdk_do sdk (Set_speech_synthesis_voice_name ''en-US-AvaNeural'')) (\<lambda>_.
     let c1 = c0 \<lparr> speech_synthesis_voice_name := Some ''en-US-AvaNeural'' \<rparr> in
     next_do (sdk_do sdk (Set_speech_synthesis_output_format Audio16Khz32KBitRateMonoMp3)) (\<lambda>_.
     let c2 = c1 \<lparr> speech_synthesis_output_format := Some Audio16Khz32KBitRateMonoMp3 \<rparr> in
     next_do (sdk_do sdk (Set_property SpeechServiceResponse_RequestSentenceBoundary ''true'')) (\<lambda>_.
     let speech_config = c2 \<lparr> properties :=
             properties c2 @ [(SpeechServiceResponse_RequestSentenceBoundary, ''true'')] \<rparr> in
     next_do (sdk_do sdk (New_AudioOutputConfig output_filename)) (\<lambda>_.
     let audio_config = AudioOutputConfig output_filename;
         ssml = ssml_template_format ''en-US-AvaNeural'' txt in
     next_do (sdk_do sdk (New_SpeechSynthesizer speech_config audio_config)) (\<lambda>_.
     next_do (sdk_do sdk Connect_word_boundary) (\<lambda>_.
     let speech_synthesizer = \<lparr> synth_speech_config = speech_config,
             synth_audio_config = audio_config, word_boundary_connected = True \<rparr> in
     next_do (speak_ssml sdk speech_synthesizer ssml, [Speak_ssml speech_synthesizer ssml]) (\<lambda>evts.
     let word_boundaries = foldl (\<lambda>wbs e. speech_synthesizer_word_boundary_cb e wbs) [] evts;
         word_boundaries = filter (\<lambda>item. CHR '' '' \<notin> set (text item)) word_boundaries;
         word_boundaries = sort_key text_offset word_boundaries
     in (Inr word_boundaries, []))))))))))))"

text \<open>The function as the module defines it: its globals are the module's.\<close>

definition create_speech_from_text ::
    "'d speech_sdk \<Rightarrow> string \<Rightarrow> string \<Rightarrow> 'd word_boundary list traced" where
  "create_speech_from_text = create_speech_from_text_in text_to_speech_globals"




section \<open>ibm_text_analysis.py\<close>

subsection \<open>The SDK's objects and the outside world\<close>

datatype authenticator = BearerTokenAuthenticator (bearer_token: string)

text \<open>The instance attributes set by \<^verbatim>\<open>__init__\<close>: both start as \<^verbatim>\<open>None\<close>.\<close>

record IBM_Watson =
  authenticator :: "authenticator option"
  token :: "string option"

definition IBM_Watson_init :: IBM_Watson where
  "IBM_Watson_init = \<lparr> authenticator = None, token = None \<rparr>"

datatype ConceptsOptions = ConceptsOptions (limit: nat)
datatype EmotionOptions = EmotionOptions
datatype SemanticRolesOptions = SemanticRolesOptions
datatype SentimentOptions = SentimentOptions (document: bool) (targets: "string list")
datatype ClassificationsOptions = ClassificationsOptions (model: string)

text \<open>
  \<^verbatim>\<open>Features(...)\<close> with the five keyword arguments this module uses; a keyword that is not
  passed is \<^verbatim>\<open>None\<close>.
\<close>

record Features =
  concepts :: "ConceptsOptions option"
  emotion :: "EmotionOptions option"
  semantic_roles :: "SemanticRolesOptions option"
  sentiment :: "SentimentOptions option"
  classifications :: "ClassificationsOptions option"

definition Features_default :: Features where
  "Features_default =
     \<lparr> concepts = None, emotion = None, semantic_roles = None, sentiment = None,
       classifications = None \<rparr>"

text \<open>A \<^verbatim>\<open>NaturalLanguageUnderstandingV1\<close> client and the keyword arguments of \<^verbatim>\<open>analyze\<close>.\<close>

record nlu_service =
  nlu_version :: string
  nlu_authenticator :: "authenticator option"
  nlu_service_url :: "string option"

record analyze_request =
  analyze_text :: string
  analyze_features :: Features
  analyze_language :: "string option"


text \<open>
  An HTTP response as far as the module reads it: the status code, and what
  \<^verbatim>\<open>response.json()\<close> gives (it raises on a body that is not JSON).
\<close>

record 'j response =
  status_code :: int
  json :: "py_error + 'j"

text \<open>
  The outside world: the configuration store behind \<^verbatim>\<open>decouple.config\<close>, the IAM token
  service behind \<^verbatim>\<open>IAMTokenManager(apikey).get_token()\<close>, the constructors of the two
  service clients (which validate their arguments and read the SDK's own configuration, and
  may raise), \<^verbatim>\<open>set_service_url\<close> (which raises on a URL it rejects and otherwise gives
  the URL as the client stores it), the NLU service behind
  \<^verbatim>\<open>service.analyze(...).get_result()\<close>, the file system, the HTTP endpoint and
  \<^verbatim>\<open>json.dumps\<close>. \<open>'j\<close> is the type of parsed JSON, \<open>'f\<close> of an open file.
\<close>

record ('j, 'f) watson_env =
  config :: "string \<Rightarrow> py_error + string"
  get_token :: "string \<Rightarrow> py_error + string"
  nlu_client :: "string \<Rightarrow> authenticator option \<Rightarrow> py_error + unit"
  tts_client :: "authenticator option \<Rightarrow> py_error + unit"
  set_service_url :: "string \<Rightarrow> py_error + string"
  analyze :: "nlu_service \<Rightarrow> analyze_request \<Rightarrow> py_error + 'j"
  open_rb :: "string \<Rightarrow> py_error + 'f"
  requests_post :: "string \<Rightarrow> (string \<times> string) list \<Rightarrow> 'f \<Rightarrow> py_error + 'j response"
  json_dumps :: "'j \<Rightarrow> nat \<Rightarrow> string"

text \<open>The calls a method makes to the outside world, in order.\<close>

datatype 'f watson_call =
    Config_get string                                  \<comment> \<open>\<^verbatim>\<open>config(key)\<close>\<close>
  | IAM_get_token string                               \<comment> \<open>\<^verbatim>\<open>IAMTokenManager(apikey=k).get_token()\<close>\<close>
  | New_NLU string "authenticator option"              \<comment> \<open>\<^verbatim>\<open>NaturalLanguageUnderstandingV1(version, authenticator)\<close>\<close>
  | New_TTS "authenticator option"                     \<comment> \<open>\<^verbatim>\<open>TextToSpeechV1(authenticator)\<close>\<close>
  | Set_service_url string                             \<comment> \<open>\<^verbatim>\<open>service.set_service_url(url)\<close>\<close>
  | NLU_analyze nlu_service analyze_request            \<comment> \<open>\<^verbatim>\<open>service.analyze(...)\<close>\<close>
  | Open_rb string                                     \<comment> \<open>\<^verbatim>\<open>open(file_path, 'rb')\<close>\<close>
  | Requests_post string "(string \<times> string) list" 'f    \<comment> \<open>\<^verbatim>\<open>requests.post(url, headers, files)\<close>\<close>

text \<open>
  The module's globals: every import of lines 1 to 16, among them
  \<^verbatim>\<open>from decouple import config\<close> (line 16), and the class.
\<close>

definition ibm_text_analysis_globals :: "('j, 'f) watson_env \<Rightarrow> namespace" where
  "ibm_text_analysis_globals env =
     [(''json'', PyModule ''json''), (''requests'', PyModule ''requests''),
      (''BearerTokenAuthenticator'', PyDef ''BearerTokenAuthenticator''),
      (''IAMTokenManager'', PyDef ''IAMTokenManager''),
      (''NaturalLanguageUnderstandingV1'', PyDef ''NaturalLanguageUnderstandingV1''),
      (''TextToSpeechV1'', PyDef ''TextToSpeechV1''),
      (''Features'', PyDef ''Features''),
      (''ConceptsOptions'', PyDef ''ConceptsOptions''),
      (''EmotionOptions'', PyDef ''EmotionOptions''),
      (''SemanticRolesOptions'', PyDef ''SemanticRolesOptions''),
      (''SentimentOptions'', PyDef ''SentimentOptions''),
      (''ClassificationsOptions'', PyDef ''ClassificationsOptions''),
      (''config'', PyCallable (config env)),
      (''IBM_Watson'', PyDef ''IBM_Watson'')]"

subsection \<open>Methods as state transformers\<close>

text \<open>
  A method takes the instance and returns its result or exception, the instance as it leaves
  it, and the calls it made. \<open>and_then\<close> is sequencing: an exception ends the run, keeping
  the state and the calls reached.
\<close>

type_synonym ('f, 'a) run = "IBM_Watson \<Rightarrow> (py_error + 'a) \<times> IBM_Watson \<times> 'f watson_call list"

definition ret :: "'a \<Rightarrow> ('f, 'a) run" where
  "ret x = (\<lambda>s. (Inr x, s, []))"

definition and_then :: "('f, 'a) run \<Rightarrow> ('a \<Rightarrow> ('f, 'b) run) \<Rightarrow> ('f, 'b) run" where
  "and_then m k =
     (\<lambda>s. case m s of
            (Inl e, s', cs) \<Rightarrow> (Inl e, s', cs)
          | (Inr x, s', cs) \<Rightarrow> (case k x s' of (r, s'', cs') \<Rightarrow> (r, s'', cs @ cs')))"

definition external :: "'f watson_call \<Rightarrow> py_error + 'a \<Rightarrow> ('f, 'a) run" where
  "external c r = (\<lambda>s. (r, s, [c]))"

definition raising :: "py_error + 'a \<Rightarrow> ('f, 'a) run" where
  "raising r = (\<lambda>s. (r, s, []))"

definition result :: "(py_error + 'a) \<times> IBM_Watson \<times> 'f watson_call list \<Rightarrow> py_error + 'a" where
  "result out = fst out"

definition final :: "(py_error + 'a) \<times> IBM_Watson \<times> 'f watson_call list \<Rightarrow> IBM_Watson" where
  "final out = fst (snd out)"

definition calls :: "(py_error + 'a) \<times> IBM_Watson \<times> 'f watson_call list \<Rightarrow> 'f watson_call list" where
  "calls out = snd (snd out)"

text \<open>\<^verbatim>\<open>config(key)\<close> inside this module.\<close>

definition config_call :: "('j, 'f) watson_env \<Rightarrow> string \<Rightarrow> ('f, string) run" where
  "config_call env key =
     (case load_global (ibm_text_analysis_globals env) ''config'' of
        Inl e \<Rightarrow> raising (Inl e)
      | Inr v \<Rightarrow> external (Config_get key) (call_value v key))"

text \<open>
  \<^verbatim>\<open>authenticate\<close> (lines 25 to 27). \<^verbatim>\<open>BearerTokenAuthenticator(None)\<close> raises
  \<^verbatim>\<open>ValueError\<close> in the SDK.
\<close>

definition authenticate :: "('j, 'f) watson_env \<Rightarrow> string \<Rightarrow> ('f, unit) run" where
  "authenticate env apikey =
     and_then (external (IAM_get_token apikey) (get_token env apikey)) (\<lambda>tok.
     and_then (\<lambda>s. (Inr (), s \<lparr> token := Some tok \<rparr>, [])) (\<lambda>_.
     (\<lambda>s. case token s of
            None \<Rightarrow> (Inl (Raised ''ValueError''), s, [])
          | Some t \<Rightarrow> (Inr (), s \<lparr> authenticator := Some (BearerTokenAuthenticator t) \<rparr>, []))))"

text \<open>\<^verbatim>\<open>get_natural_language_service\<close> (lines 29 to 45). The client is constructed with the
  authenticator the instance holds; the URL it ends with is the one \<^verbatim>\<open>set_service_url\<close> stored.\<close>

definition get_natural_language_service ::
    "('j, 'f) watson_env \<Rightarrow> string \<Rightarrow> ('f, nlu_service) run" where
  "get_natural_language_service env version =
     and_then (config_call env ''NLP_KEY'') (\<lambda>apikey.
     and_then (authenticate env apikey) (\<lambda>_.
     and_then (\<lambda>s. external (New_NLU version (authenticator s))
                      (nlu_client env version (authenticator s)) s) (\<lambda>_.
     and_then (\<lambda>s. (Inr \<lparr> nlu_version = version, nlu_authenticator = authenticator s,
                          nlu_service_url = None \<rparr>, s, [])) (\<lambda>service.
     and_then (config_call env ''NLP_BASE_URL'') (\<lambda>url.
     and_then (external (Set_service_url url) (set_service_url env url)) (\<lambda>stored.
     ret (service \<lparr> nlu_service_url := Some stored \<rparr>)))))))"

text \<open>The f-string \<^verbatim>\<open>f'Bearer {self.token}'\<close>: \<^verbatim>\<open>None\<close> would format as \<^verbatim>\<open>None\<close>.\<close>

definition format_token :: "string option \<Rightarrow> string" where
  "format_token t = (case t of None \<Rightarrow> ''None'' | Some x \<Rightarrow> x)"

text \<open>\<^verbatim>\<open>get_speech_to_text_result\<close> (lines 47 to 72).\<close>

definition get_speech_to_text_result ::
    "('j, 'f) watson_env \<Rightarrow> string \<Rightarrow> ('f, 'j option) run" where
  "get_speech_to_text_result env file_path =
     and_then (config_call env ''STT_API_KEY'') (\<lambda>apikey.
     and_then (authenticate env apikey) (\<lambda>_.
     and_then (\<lambda>s. (Inr [(''Authorization'', ''Bearer '' @ format_token (token s)),
                         (''Content-Type'', ''audio/mp3''),
                         (''x-global-transaction-id'', ''presentation-skills-request'')],
                    s, [])) (\<lambda>headers.
     and_then (external (Open_rb file_path) (open_rb env file_path)) (\<lambda>file.
     and_then (config_call env ''URL'') (\<lambda>url.
     and_then (external (Requests_post url headers file) (requests_post env url headers file))
       (\<lambda>response.
     if status_code response = 200
     then and_then (raising (json response)) (\<lambda>transcript. ret (Some transcript))
     else ret None))))))"


text \<open>
  \<^verbatim>\<open>str.split(sep)\<close> with a separator of one character: the pieces between the occurrences
  of the separator, so that a string with \<open>n\<close> separators has \<open>n + 1\<close> pieces, some of which
  may be empty.
\<close>

fun py_split :: "char \<Rightarrow> string \<Rightarrow> string list" where
  "py_split sep [] = [[]]"
| "py_split sep (c # cs) =
     (if c = sep then [] # py_split sep cs
      else (case py_split sep cs of
              [] \<Rightarrow> [[c]]
            | w # ws \<Rightarrow> (c # w) # ws))"

text \<open>The call \<^verbatim>\<open>service.analyze(...).get_result()\<close> followed by \<^verbatim>\<open>json.dumps(response, indent=2)\<close>.\<close>

definition analyze_and_dump ::
    "('j, 'f) watson_env \<Rightarrow> nlu_service \<Rightarrow> analyze_request \<Rightarrow> ('f, string) run" where
  "analyze_and_dump env service req =
     and_then (external (NLU_analyze service req) (analyze env service req)) (\<lambda>response.
     ret (json_dumps env response 2))"

text \<open>The five analysis methods (lines 86 to 164).\<close>

definition get_text_concept :: "('j, 'f) watson_env \<Rightarrow> string \<Rightarrow> ('f, string) run" where
  "get_text_concept env txt =
     and_then (get_natural_language_service env ''2022-04-07'') (\<lambda>natural_language_service.
     analyze_and_dump env natural_language_service
       \<lparr> analyze_text = txt,
         analyze_features = Features_default \<lparr> concepts := Some (ConceptsOptions 3) \<rparr>,
         analyze_language = Some ''en'' \<rparr>)"

definition get_text_emotion :: "('j, 'f) watson_env \<Rightarrow> string \<Rightarrow> ('f, string) run" where
  "get_text_emotion env txt =
     and_then (get_natural_language_service env ''2022-04-07'') (\<lambda>natural_language_service.
     analyze_and_dump env natural_language_service
       \<lparr> analyze_text = txt,
         analyze_features = Features_default \<lparr> emotion := Some EmotionOptions \<rparr>,
         analyze_language = Some ''en'' \<rparr>)"

definition get_text_semantic_roles :: "('j, 'f) watson_env \<Rightarrow> string \<Rightarrow> ('f, string) run" where
  "get_text_semantic_roles env txt =
     and_then (get_natural_language_service env ''2022-04-07'') (\<lambda>natural_language_service.
     analyze_and_dump env natural_language_service
       \<lparr> analyze_text = txt,
         analyze_features = Features_default \<lparr> semantic_roles := Some SemanticRolesOptions \<rparr>,
         analyze_language = Some ''en'' \<rparr>)"

definition get_text_sentiment :: "('j, 'f) watson_env \<Rightarrow> string \<Rightarrow> ('f, string) run" where
  "get_text_sentiment env txt =
     and_then (get_natural_language_service env ''2022-04-07'') (\<lambda>natural_language_service.
     analyze_and_dump env natural_language_service
       \<lparr> analyze_text = txt,
         analyze_features = Features_default
           \<lparr> sentiment := Some (SentimentOptions False (py_split CHR ''.'' txt)) \<rparr>,
         analyze_language = Some ''en'' \<rparr>)"

definition get_text_tone :: "('j, 'f) watson_env \<Rightarrow> string \<Rightarrow> ('f, string) run" where
  "get_text_tone env txt =
     and_then (get_natural_language_service env ''2022-04-07'') (\<lambda>natural_language_service.
     analyze_and_dump env natural_language_service
       \<lparr> analyze_text = txt,
         analyze_features = Features_default
           \<lparr> classifications := Some (ClassificationsOptions ''tone-classifications-en-v1'') \<rparr>,
         analyze_language = None \<rparr>)"


section \<open>Observations on runs, and sample worlds\<close>

text \<open>The HTTP requests and the configuration keys among the calls of a run.\<close>

definition http_posts :: "'f watson_call list \<Rightarrow> (string \<times> (string \<times> string) list \<times> 'f) list" where
  "http_posts cs = [(url, headers, file). Requests_post url headers file \<leftarrow> cs]"




text \<open>
  The globals \<^verbatim>\<open>text_to_speech.py\<close> would have if line 1 were the import it spells out
  instead of a comment: \<^verbatim>\<open>config\<close> bound first, then the rest.
\<close>

definition globals_with_config :: "(string \<Rightarrow> py_error + string) \<Rightarrow> namespace" where
  "globals_with_config cfg = (''config'', PyCallable cfg) # text_to_speech_globals"

text \<open>
  Sample worlds. In \<open>demo_env code\<close> every lookup, token request and SDK call succeeds,
  \<^verbatim>\<open>set_service_url\<close> stores the URL as given, and the transcription endpoint answers with
  status \<open>code\<close>. \<open>demo_sdk\<close> lets every constructor and setter through and synthesizes
  \<^verbatim>\<open>Hello world\<close> with events that arrive out of order, one of them for the whole sentence;
  offsets and durations are in the SDK's ticks.
\<close>

definition demo_env :: "int \<Rightarrow> (string, string) watson_env" where
  "demo_env code =
     \<lparr> config = (\<lambda>key. Inr (''value of '' @ key)),
       get_token = (\<lambda>apikey. Inr (''token for '' @ apikey)),
       nlu_client = (\<lambda>version auth. Inr ()),
       tts_client = (\<lambda>auth. Inr ()),
       set_service_url = (\<lambda>url. Inr url),
       analyze = (\<lambda>service req. Inr ''{}''),
       open_rb = (\<lambda>path. Inr ''ID3''),
       requests_post = (\<lambda>url headers file. Inr \<lparr> status_code = code, json = Inr ''transcript'' \<rparr>),
       json_dumps = (\<lambda>j indent. j) \<rparr>"

definition stale :: IBM_Watson where
  "stale = \<lparr> authenticator = Some (BearerTokenAuthenticator ''stale''), token = Some ''stale'' \<rparr>"

definition demo_events :: "int evt list" where
  "demo_events =
     [\<lparr> evt_audio_offset = 500000, evt_duration = 3500000, evt_text = ''world'',
        evt_text_offset = 6, evt_word_length = 5 \<rparr>,
      \<lparr> evt_audio_offset = 500000, evt_duration = 9000000, evt_text = ''Hello world'',
        evt_text_offset = 0, evt_word_length = 11 \<rparr>,
      \<lparr> evt_audio_offset = 500000, evt_duration = 3000000, evt_text = ''Hello'',
        evt_text_offset = 0, evt_word_length = 5 \<rparr>]"

definition demo_sdk :: "int speech_sdk" where
  "demo_sdk = \<lparr> sdk_raises = (\<lambda>c. None), speak_ssml = (\<lambda>synthesizer ssml. Inr demo_events) \<rparr>"

definition demo_config :: "string \<Rightarrow> py_error + string" where
  "demo_config key = Inr (''value of '' @ key)"


section \<open>Runs of the Watson methods, case by case\<close>

lemma config_call_eq: "config_call env key = external (Config_get key) (config env key)"
  by (simp add: config_call_def load_global_def ibm_text_analysis_globals_def call_value_def)

lemma authenticate_run:
  "authenticate env apikey s =
     (case get_token env apikey of
        Inl e \<Rightarrow> (Inl e, s, [IAM_get_token apikey])
      | Inr tok \<Rightarrow> (Inr (), s \<lparr> token := Some tok,
                                authenticator := Some (BearerTokenAuthenticator tok) \<rparr>,
                    [IAM_get_token apikey]))"
  by (simp add: authenticate_def and_then_def external_def split: sum.splits)

lemma get_natural_language_service_run:
  "get_natural_language_service env version s =
     (case config env ''NLP_KEY'' of
        Inl e \<Rightarrow> (Inl e, s, [Config_get ''NLP_KEY''])
      | Inr apikey \<Rightarrow>
     (case get_token env apikey of
        Inl e \<Rightarrow> (Inl e, s, [Config_get ''NLP_KEY'', IAM_get_token apikey])
      | Inr tok \<Rightarrow>
     (let s' = s \<lparr> token := Some tok, authenticator := Some (BearerTokenAuthenticator tok) \<rparr>;
          auth = Some (BearerTokenAuthenticator tok) in
     (case nlu_client env version auth of
        Inl e \<Rightarrow> (Inl e, s', [Config_get ''NLP_KEY'', IAM_get_token apikey, New_NLU version auth])
      | Inr _ \<Rightarrow>
     (case config env ''NLP_BASE_URL'' of
        Inl e \<Rightarrow> (Inl e, s', [Config_get ''NLP_KEY'', IAM_get_token apikey, New_NLU version auth,
                              Config_get ''NLP_BASE_URL''])
      | Inr url \<Rightarrow>
     (case set_service_url env url of
        Inl e \<Rightarrow> (Inl e, s', [Config_get ''NLP_KEY'', IAM_get_token apikey, New_NLU version auth,
                              Config_get ''NLP_BASE_URL'', Set_service_url url])
      | Inr stored \<Rightarrow>
          (Inr \<lparr> nlu_version = version, nlu_authenticator = auth, nlu_service_url = Some stored \<rparr>,
           s', [Config_get ''NLP_KEY'', IAM_get_token apikey, New_NLU version auth,
                Config_get ''NLP_BASE_URL'', Set_service_url url])))))))"
  by (simp add: get_natural_language_service_def config_call_eq and_then_def external_def
      authenticate_run ret_def Let_def split: sum.splits)

lemma nlu_method_run:
  "and_then (get_natural_language_service env version) (\<lambda>svc. analyze_and_dump env svc req) s =
     (case get_natural_language_service env version s of
        (Inl e, s', cs) \<Rightarrow> (Inl e, s', cs)
      | (Inr svc, s', cs) \<Rightarrow>
          (case analyze env svc req of
             Inl e \<Rightarrow> (Inl e, s', cs @ [NLU_analyze svc req])
           | Inr response \<Rightarrow> (Inr (json_dumps env response 2), s', cs @ [NLU_analyze svc req])))"
  by (simp add: and_then_def analyze_and_dump_def external_def ret_def split: sum.splits prod.splits)

lemma get_speech_to_text_result_run:
  "get_speech_to_text_result env file_path s =
     (case config env ''STT_API_KEY'' of
        Inl e \<Rightarrow> (Inl e, s, [Config_get ''STT_API_KEY''])
      | Inr apikey \<Rightarrow>
     (case get_token env apikey of
        Inl e \<Rightarrow> (Inl e, s, [Config_get ''STT_API_KEY'', IAM_get_token apikey])
      | Inr tok \<Rightarrow>
     (let s' = s \<lparr> token := Some tok, authenticator := Some (BearerTokenAuthenticator tok) \<rparr>;
          headers = [(''Authorization'', ''Bearer '' @ tok), (''Content-Type'', ''audio/mp3''),
                     (''x-global-transaction-id'', ''presentation-skills-request'')]
      in
     (case open_rb env file_path of
        Inl e \<Rightarrow> (Inl e, s', [Config_get ''STT_API_KEY'', IAM_get_token apikey, Open_rb file_path])
      | Inr file \<Rightarrow>
     (case config env ''URL'' of
        Inl e \<Rightarrow> (Inl e, s', [Config_get ''STT_API_KEY'', IAM_get_token apikey, Open_rb file_path,
                              Config_get ''URL''])
      | Inr url \<Rightarrow>
     (let cs = [Config_get ''STT_API_KEY'', IAM_get_token apikey, Open_rb file_path,
                Config_get ''URL'', Requests_post url headers file]
      in
     (case requests_post env url headers file of
        Inl e \<Rightarrow> (Inl e, s', cs)
      | Inr response \<Rightarrow>
          if status_code response = 200
          then (case json response of Inl e \<Rightarrow> (Inl e, s', cs)
                | Inr transcript \<Rightarrow> (Inr (Some transcript), s', cs))
          else (Inr None, s', cs))))))))"
  by (simp add: get_speech_to_text_result_def config_call_eq and_then_def external_def
      authenticate_run ret_def raising_def format_token_def Let_def split: sum.splits)


text \<open>
  The shape shared by the five analysis methods.
\<close>

lemma nlu_request_issued:
  assumes "NLU_analyze svc req \<in>
             set (calls (and_then (get_natural_language_service env v)
                           (\<lambda>service. analyze_and_dump env service r) s))"
  shows "\<exists>apikey tok url stored.
           config env ''NLP_KEY'' = Inr apikey \<and> get_token env apikey = Inr tok \<and>
           config env ''NLP_BASE_URL'' = Inr url \<and> set_service_url env url = Inr stored \<and>
           svc = \<lparr> nlu_version = v, nlu_authenticator = Some (BearerTokenAuthenticator tok),
                   nlu_service_url = Some stored \<rparr> \<and>
           req = r \<and>
           calls (and_then (get_natural_language_service env v)
                    (\<lambda>service. analyze_and_dump env service r) s) =
             [Config_get ''NLP_KEY'', IAM_get_token apikey,
              New_NLU v (Some (BearerTokenAuthenticator tok)), Config_get ''NLP_BASE_URL'',
              Set_service_url url, NLU_analyze svc req] \<and>
           token (final (and_then (get_natural_language_service env v)
                    (\<lambda>service. analyze_and_dump env service r) s)) = Some tok"
  using assms
  by (auto simp: nlu_method_run get_natural_language_service_run calls_def final_def Let_def
      split: sum.splits)

lemma nlu_request_when_ready:
  assumes "config env ''NLP_KEY'' = Inr apikey" "get_token env apikey = Inr tok"
    "nlu_client env v (Some (BearerTokenAuthenticator tok)) = Inr ()"
    "config env ''NLP_BASE_URL'' = Inr url" "set_service_url env url = Inr stored"
  shows "calls (and_then (get_natural_language_service env v)
                    (\<lambda>service. analyze_and_dump env service r) s) =
             [Config_get ''NLP_KEY'', IAM_get_token apikey,
              New_NLU v (Some (BearerTokenAuthenticator tok)), Config_get ''NLP_BASE_URL'',
              Set_service_url url,
              NLU_analyze \<lparr> nlu_version = v, nlu_authenticator = Some (BearerTokenAuthenticator tok),
                   nlu_service_url = Some stored \<rparr> r]"
  using assms
  by (auto simp: nlu_method_run get_natural_language_service_run calls_def final_def Let_def
      split: sum.splits)

lemma nlu_state_independent:
  "calls (and_then (get_natural_language_service env v)
            (\<lambda>service. analyze_and_dump env service r) s) =
   calls (and_then (get_natural_language_service env v)
            (\<lambda>service. analyze_and_dump env service r) s')
   \<and> result (and_then (get_natural_language_service env v)
            (\<lambda>service. analyze_and_dump env service r) s) =
     result (and_then (get_natural_language_service env v)
            (\<lambda>service. analyze_and_dump env service r) s')"
  by (auto simp: nlu_method_run get_natural_language_service_run calls_def result_def Let_def
      split: sum.splits)

lemma nlu_starts_with_key:
  "take 1 (calls (and_then (get_natural_language_service env v)
            (\<lambda>service. analyze_and_dump env service r) s)) = [Config_get ''NLP_KEY'']"
  by (auto simp: nlu_method_run get_natural_language_service_run calls_def Let_def
      split: sum.splits)

lemma nlu_authenticates:
  assumes "config env ''NLP_KEY'' = Inr apikey"
  shows "take 2 (calls (and_then (get_natural_language_service env v)
            (\<lambda>service. analyze_and_dump env service r) s))
           = [Config_get ''NLP_KEY'', IAM_get_token apikey]"
  using assms
  by (auto simp: nlu_method_run get_natural_language_service_run calls_def Let_def
      split: sum.splits)

lemma nlu_holds_fresh_token:
  assumes "config env ''NLP_KEY'' = Inr apikey" "get_token env apikey = Inr tok"
  shows "token (final (and_then (get_natural_language_service env v)
            (\<lambda>service. analyze_and_dump env service r) s)) = Some tok
       \<and> authenticator (final (and_then (get_natural_language_service env v)
            (\<lambda>service. analyze_and_dump env service r) s)) = Some (BearerTokenAuthenticator tok)"
  using assms
  by (auto simp: nlu_method_run get_natural_language_service_run final_def Let_def
      split: sum.splits)



lemma demo_env_simps:
  "config (demo_env code) key = Inr (''value of '' @ key)"
  "get_token (demo_env code) apikey = Inr (''token for '' @ apikey)"
  "nlu_client (demo_env code) version auth = Inr ()"
  "tts_client (demo_env code) auth = Inr ()"
  "set_service_url (demo_env code) url = Inr url"
  "analyze (demo_env code) service req = Inr ''{}''"
  "open_rb (demo_env code) path = Inr ''ID3''"
  "requests_post (demo_env code) url headers file = Inr \<lparr> status_code = code, json = Inr ''transcript'' \<rparr>"
  "json_dumps (demo_env code) j indent = j"
  by (simp_all add: demo_env_def)

lemma demo_key:
  "config (demo_env code) ''NLP_KEY'' = Inr ''value of NLP_KEY''
   \<and> get_token (demo_env code) ''value of NLP_KEY'' = Inr ''token for value of NLP_KEY''"
  by (simp add: demo_env_simps)

lemma demo_ready:
  "config (demo_env code) ''NLP_KEY'' = Inr ''value of NLP_KEY''
   \<and> get_token (demo_env code) ''value of NLP_KEY'' = Inr ''token for value of NLP_KEY''
   \<and> nlu_client (demo_env code) ''2022-04-07''
         (Some (BearerTokenAuthenticator ''token for value of NLP_KEY'')) = Inr ()
   \<and> config (demo_env code) ''NLP_BASE_URL'' = Inr ''value of NLP_BASE_URL''
   \<and> set_service_url (demo_env code) ''value of NLP_BASE_URL'' = Inr ''value of NLP_BASE_URL''"
  by (simp add: demo_env_simps)

lemma demo_stt_key:
  "config (demo_env code) ''STT_API_KEY'' = Inr ''value of STT_API_KEY''
   \<and> get_token (demo_env code) ''value of STT_API_KEY'' = Inr ''token for value of STT_API_KEY''"
  by (simp add: demo_env_simps)


section \<open>str.split\<close>

lemma py_split_not_Nil: "py_split sep s \<noteq> []"
  by (induction s) (auto split: list.splits)

lemma py_split_no_sep: "sep \<notin> set w \<Longrightarrow> py_split sep w = [w]"
  by (induction w) auto

lemma py_split_at_sep: "sep \<notin> set w \<Longrightarrow> py_split sep (w @ sep # rest) = w # py_split sep rest"
  by (induction w) auto

lemma py_split_pieces: "w \<in> set (py_split sep s) \<Longrightarrow> sep \<notin> set w"
  by (induction s arbitrary: w) (auto split: if_splits list.splits)

lemma py_split_length: "length (py_split sep s) = Suc (count_list s sep)"
  by (induction s) (auto split: list.splits simp: py_split_not_Nil)

lemma py_split_trailing_sep: "py_split sep (s @ [sep]) = py_split sep s @ [[]]"
  by (induction s) (auto split: list.splits simp: py_split_not_Nil)

lemma py_split_last_empty:
  assumes "s \<noteq> []" "last s = sep"
  shows "last (py_split sep s) = []"
proof -
  from assms obtain r where "s = r @ [sep]"
    by (metis append_butlast_last_id)
  then show ?thesis by (simp add: py_split_trailing_sep)
qed


section \<open>Runs of create_speech_from_text, step by step\<close>

lemma next_do_simps:
  "next_do (Inl e, cs) k = (Inl e, cs)"
  "next_do (Inr x, cs) k = (fst (k x), cs @ snd (k x))"
  by (simp_all add: next_do_def split: prod.splits)

lemma next_do_eq_Inr:
  "next_do m k = (Inr y, cs) \<longleftrightarrow> (\<exists>x c1 c2. m = (Inr x, c1) \<and> k x = (Inr y, c2) \<and> cs = c1 @ c2)"
  by (cases m; cases "fst m") (auto simp: next_do_def split: prod.splits)

lemma sdk_do_eq_Inr:
  "sdk_do sdk c = (Inr u, cs) \<longleftrightarrow> sdk_raises sdk c = None \<and> cs = [c]"
  by (auto simp: sdk_do_def split: option.splits)

lemma use_speechsdk_eq_Inr:
  "use_speechsdk g = (Inr u, cs) \<longleftrightarrow> (\<exists>v. load_global g ''speechsdk'' = Inr v) \<and> cs = []"
  by (auto simp: use_speechsdk_def split: sum.splits)

lemma config_lookup_eq_Inr:
  "config_lookup g key = (Inr x, cs) \<longleftrightarrow>
     (\<exists>v. load_global g ''config'' = Inr v \<and> call_value v key = Inr x) \<and> cs = [Config_lookup key]"
  by (auto simp: config_lookup_def split: sum.splits)



lemma config_unbound: "load_global text_to_speech_globals ''config'' = Inl (NameError ''config'')"
  by (simp add: load_global_def text_to_speech_globals_def)

lemma speechsdk_bound:
  "load_global text_to_speech_globals ''speechsdk'' = Inr (PyModule ''azure.cognitiveservices.speech'')"
  by (simp add: load_global_def text_to_speech_globals_def)

lemma bound_config:
  "load_global (globals_with_config cfg) ''config'' = Inr (PyCallable cfg)"
  "load_global (globals_with_config cfg) ''speechsdk'' = Inr (PyModule ''azure.cognitiveservices.speech'')"
  by (simp_all add: load_global_def globals_with_config_def text_to_speech_globals_def)

lemma create_speech_from_text_raises:
  "create_speech_from_text sdk txt output_filename = (Inl (NameError ''config''), [])"
  by (simp add: create_speech_from_text_def create_speech_from_text_in_def use_speechsdk_def
      config_lookup_def config_unbound speechsdk_bound next_do_simps)

lemma create_speech_from_text_in_returned_pair:
  assumes "create_speech_from_text_in g sdk txt output_filename = (Inr wbs, cs)"
  shows "\<exists>key reg evts.
           speak_ssml sdk
             \<lparr> synth_speech_config =
                 \<lparr> subscription = key, region = reg,
                   speech_synthesis_voice_name = Some ''en-US-AvaNeural'',
                   speech_synthesis_output_format = Some Audio16Khz32KBitRateMonoMp3,
                   properties = [(SpeechServiceResponse_RequestSentenceBoundary, ''true'')] \<rparr>,
               synth_audio_config = AudioOutputConfig output_filename,
               word_boundary_connected = True \<rparr>
             (ssml_template_format ''en-US-AvaNeural'' txt) = Inr evts \<and>
           wbs = sort_key text_offset
                   (filter (\<lambda>item. CHR '' '' \<notin> set (text item))
                      (foldl (\<lambda>wbs e. speech_synthesizer_word_boundary_cb e wbs) [] evts)) \<and>
           cs =
             [Config_lookup ''SPEECH_KEY'', Config_lookup ''SERVICE_REGION'',
              New_SpeechConfig key reg,
              Set_speech_synthesis_voice_name ''en-US-AvaNeural'',
              Set_speech_synthesis_output_format Audio16Khz32KBitRateMonoMp3,
              Set_property SpeechServiceResponse_RequestSentenceBoundary ''true'',
              New_AudioOutputConfig output_filename,
              New_SpeechSynthesizer
                \<lparr> subscription = key, region = reg,
                  speech_synthesis_voice_name = Some ''en-US-AvaNeural'',
                  speech_synthesis_output_format = Some Audio16Khz32KBitRateMonoMp3,
                  properties = [(SpeechServiceResponse_RequestSentenceBoundary, ''true'')] \<rparr>
                (AudioOutputConfig output_filename),
              Connect_word_boundary,
              Speak_ssml
                \<lparr> synth_speech_config =
                    \<lparr> subscription = key, region = reg,
                      speech_synthesis_voice_name = Some ''en-US-AvaNeural'',
                      speech_synthesis_output_format = Some Audio16Khz32KBitRateMonoMp3,
                      properties = [(SpeechServiceResponse_RequestSentenceBoundary, ''true'')] \<rparr>,
                  synth_audio_config = AudioOutputConfig output_filename,
                  word_boundary_connected = True \<rparr>
                (ssml_template_format ''en-US-AvaNeural'' txt)]"
  using assms
  unfolding create_speech_from_text_in_def Let_def
  by (simp add: next_do_eq_Inr sdk_do_eq_Inr use_speechsdk_eq_Inr config_lookup_eq_Inr) blast

lemma create_speech_from_text_in_returned:
  assumes "fst (create_speech_from_text_in g sdk txt output_filename) = Inr wbs"
  shows "\<exists>key reg evts.
           speak_ssml sdk
             \<lparr> synth_speech_config =
                 \<lparr> subscription = key, region = reg,
                   speech_synthesis_voice_name = Some ''en-US-AvaNeural'',
                   speech_synthesis_output_format = Some Audio16Khz32KBitRateMonoMp3,
                   properties = [(SpeechServiceResponse_RequestSentenceBoundary, ''true'')] \<rparr>,
               synth_audio_config = AudioOutputConfig output_filename,
               word_boundary_connected = True \<rparr>
             (ssml_template_format ''en-US-AvaNeural'' txt) = Inr evts \<and>
           wbs = sort_key text_offset
                   (filter (\<lambda>item. CHR '' '' \<notin> set (text item))
                      (foldl (\<lambda>wbs e. speech_synthesizer_word_boundary_cb e wbs) [] evts)) \<and>
           snd (create_speech_from_text_in g sdk txt output_filename) =
             [Config_lookup ''SPEECH_KEY'', Config_lookup ''SERVICE_REGION'',
              New_SpeechConfig key reg,
              Set_speech_synthesis_voice_name ''en-US-AvaNeural'',
              Set_speech_synthesis_output_format Audio16Khz32KBitRateMonoMp3,
              Set_property SpeechServiceResponse_RequestSentenceBoundary ''true'',
              New_AudioOutputConfig output_filename,
              New_SpeechSynthesizer
                \<lparr> subscription = key, region = reg,
                  speech_synthesis_voice_name = Some ''en-US-AvaNeural'',
                  speech_synthesis_output_format = Some Audio16Khz32KBitRateMonoMp3,
                  properties = [(SpeechServiceResponse_RequestSentenceBoundary, ''true'')] \<rparr>
                (AudioOutputConfig output_filename),
              Connect_word_boundary,
              Speak_ssml
                \<lparr> synth_speech_config =
                    \<lparr> subscription = key, region = reg,
                      speech_synthesis_voice_name = Some ''en-US-AvaNeural'',
                      speech_synthesis_output_format = Some Audio16Khz32KBitRateMonoMp3,
                      properties = [(SpeechServiceResponse_RequestSentenceBoundary, ''true'')] \<rparr>,
                  synth_audio_config = AudioOutputConfig output_filename,
                  word_boundary_connected = True \<rparr>
                (ssml_template_format ''en-US-AvaNeural'' txt)]"
  using create_speech_from_text_in_returned_pair
    [of g sdk "txt" output_filename wbs "snd (create_speech_from_text_in g sdk txt output_filename)"]
    assms
  by (simp add: prod_eq_iff)




lemma demo_run:
  "create_speech_from_text_in (globals_with_config demo_config) demo_sdk txt output_filename =
     (Inr [\<lparr> audio_offset = 101 / 2, duration = 3000000, text = ''Hello'', text_offset = 0,
              word_length = 5 \<rparr>,
           \<lparr> audio_offset = 101 / 2, duration = 3500000, text = ''world'', text_offset = 6,
              word_length = 5 \<rparr>],
      [Config_lookup ''SPEECH_KEY'', Config_lookup ''SERVICE_REGION'',
       New_SpeechConfig ''value of SPEECH_KEY'' ''value of SERVICE_REGION'',
       Set_speech_synthesis_voice_name ''en-US-AvaNeural'',
       Set_speech_synthesis_output_format Audio16Khz32KBitRateMonoMp3,
       Set_property SpeechServiceResponse_RequestSentenceBoundary ''true'',
       New_AudioOutputConfig output_filename,
       New_SpeechSynthesizer
         \<lparr> subscription = ''value of SPEECH_KEY'', region = ''value of SERVICE_REGION'',
           speech_synthesis_voice_name = Some ''en-US-AvaNeural'',
           speech_synthesis_output_format = Some Audio16Khz32KBitRateMonoMp3,
           properties = [(SpeechServiceResponse_RequestSentenceBoundary, ''true'')] \<rparr>
         (AudioOutputConfig output_filename),
       Connect_word_boundary,
       Speak_ssml
         \<lparr> synth_speech_config =
             \<lparr> subscription = ''value of SPEECH_KEY'', region = ''value of SERVICE_REGION'',
               speech_synthesis_voice_name = Some ''en-US-AvaNeural'',
               speech_synthesis_output_format = Some Audio16Khz32KBitRateMonoMp3,
               properties = [(SpeechServiceResponse_RequestSentenceBoundary, ''true'')] \<rparr>,
           synth_audio_config = AudioOutputConfig output_filename,
           word_boundary_connected = True \<rparr>
         (ssml_template_format ''en-US-AvaNeural'' txt)])"
  by (simp add: create_speech_from_text_in_def use_speechsdk_def config_lookup_def sdk_do_def
      bound_config call_value_def demo_config_def demo_sdk_def demo_events_def Let_def
      next_do_simps speech_synthesizer_word_boundary_cb_def)


section \<open>Properties of ibm_text_analysis.py\<close>

text \<open>
  C3. For every file path and every world: if the transcription request was sent and its
  response has a status code other than 200, \<open>get_speech_to_text_result\<close> returns
  \<^verbatim>\<open>None\<close>; a result that is not \<^verbatim>\<open>None\<close> comes from a response with status code 200
  (and is that response's JSON); and a run sends at most one request, so nothing is retried.
\<close>

theorem get_speech_to_text_result_status:
  "(\<forall>url headers file response.
      Requests_post url headers file \<in> set (calls (get_speech_to_text_result env file_path s)) \<and>
      requests_post env url headers file = Inr response \<and> status_code response \<noteq> 200
      \<longrightarrow> result (get_speech_to_text_result env file_path s) = Inr None)
   \<and> (\<forall>transcript.
      result (get_speech_to_text_result env file_path s) = Inr (Some transcript)
      \<longrightarrow> (\<exists>url headers file response.
             Requests_post url headers file \<in> set (calls (get_speech_to_text_result env file_path s)) \<and>
             requests_post env url headers file = Inr response \<and>
             status_code response = 200 \<and> json response = Inr transcript))
   \<and> length (http_posts (calls (get_speech_to_text_result env file_path s))) \<le> 1"
  by (auto simp: get_speech_to_text_result_run calls_def result_def http_posts_def Let_def
      split: sum.splits if_splits)

text \<open>
  At status 503 the hypotheses hold and the result is \<^verbatim>\<open>None\<close>; at status 200 the
  transcript is returned.
\<close>

theorem get_speech_to_text_result_status_witness:
  "Requests_post ''value of URL''
       [(''Authorization'', ''Bearer token for value of STT_API_KEY''),
        (''Content-Type'', ''audio/mp3''),
        (''x-global-transaction-id'', ''presentation-skills-request'')] ''ID3''
     \<in> set (calls (get_speech_to_text_result (demo_env 503) ''talk.mp3'' IBM_Watson_init))
   \<and> requests_post (demo_env 503) ''value of URL''
       [(''Authorization'', ''Bearer token for value of STT_API_KEY''),
        (''Content-Type'', ''audio/mp3''),
        (''x-global-transaction-id'', ''presentation-skills-request'')] ''ID3''
       = Inr \<lparr> status_code = 503, json = Inr ''transcript'' \<rparr>
   \<and> status_code \<lparr> status_code = 503, json = Inr ''transcript'' \<rparr> \<noteq> 200
   \<and> result (get_speech_to_text_result (demo_env 503) ''talk.mp3'' IBM_Watson_init) = Inr None
   \<and> result (get_speech_to_text_result (demo_env 200) ''talk.mp3'' IBM_Watson_init)
       = Inr (Some ''transcript'')"
proof -
  let ?h = "[(''Authorization'', ''Bearer token for value of STT_API_KEY''),
        (''Content-Type'', ''audio/mp3''),
        (''x-global-transaction-id'', ''presentation-skills-request'')]"
  have sent: "Requests_post ''value of URL'' ?h ''ID3''
     \<in> set (calls (get_speech_to_text_result (demo_env 503) ''talk.mp3'' IBM_Watson_init))"
    by (simp add: get_speech_to_text_result_run demo_env_simps calls_def)
  have got: "requests_post (demo_env 503) ''value of URL'' ?h ''ID3''
       = Inr \<lparr> status_code = 503, json = Inr ''transcript'' \<rparr>"
    by (simp add: demo_env_simps)
  have code: "status_code \<lparr> status_code = 503, json = Inr ''transcript'' \<rparr> \<noteq> 200"
    by simp
  from get_speech_to_text_result_status [of "demo_env 503" "''talk.mp3''" IBM_Watson_init]
    sent got code
  have none: "result (get_speech_to_text_result (demo_env 503) ''talk.mp3'' IBM_Watson_init) = Inr None"
    by blast
  have ok: "result (get_speech_to_text_result (demo_env 200) ''talk.mp3'' IBM_Watson_init)
       = Inr (Some ''transcript'')"
    by (simp add: get_speech_to_text_result_run demo_env_simps result_def)
  from sent got code none ok show ?thesis by blast
qed

text \<open>
  C7. Each of the five analysis methods and \<open>get_speech_to_text_result\<close> authenticates in
  the invocation itself. Every run starts with the lookup of the operation's key
  (\<^verbatim>\<open>NLP_KEY\<close>, \<^verbatim>\<open>STT_API_KEY\<close>); when the lookup gives a key, the next call requests a token for
  that key; when the token arrives, the instance holds it and its bearer authenticator at the
  end of the run. When the remaining steps succeed too, the vendor request is issued, as the
  last call, and carries that token. Conversely a vendor request among the calls was preceded
  by the key lookup and the token request of the same run, and carries that run's token. What
  the instance held before plays no part: calls and result are the same from any two starting
  states.
\<close>

theorem authenticate_per_call:
  "(\<forall>M \<in> {get_text_concept, get_text_emotion, get_text_semantic_roles, get_text_sentiment,
           get_text_tone}.
      take 1 (calls (M env txt s)) = [Config_get ''NLP_KEY'']
      \<and> (\<forall>apikey. config env ''NLP_KEY'' = Inr apikey \<longrightarrow>
         take 2 (calls (M env txt s)) = [Config_get ''NLP_KEY'', IAM_get_token apikey])
      \<and> (\<forall>apikey tok. config env ''NLP_KEY'' = Inr apikey \<and> get_token env apikey = Inr tok \<longrightarrow>
         token (final (M env txt s)) = Some tok \<and>
         authenticator (final (M env txt s)) = Some (BearerTokenAuthenticator tok))
      \<and> (\<forall>apikey tok url stored.
         config env ''NLP_KEY'' = Inr apikey \<and> get_token env apikey = Inr tok \<and>
         nlu_client env ''2022-04-07'' (Some (BearerTokenAuthenticator tok)) = Inr () \<and>
         config env ''NLP_BASE_URL'' = Inr url \<and> set_service_url env url = Inr stored \<longrightarrow>
         (\<exists>req. calls (M env txt s) =
              [Config_get ''NLP_KEY'', IAM_get_token apikey,
               New_NLU ''2022-04-07'' (Some (BearerTokenAuthenticator tok)),
               Config_get ''NLP_BASE_URL'', Set_service_url url,
               NLU_analyze \<lparr> nlu_version = ''2022-04-07'',
                             nlu_authenticator = Some (BearerTokenAuthenticator tok),
                             nlu_service_url = Some stored \<rparr> req]))
      \<and> (\<forall>svc req. NLU_analyze svc req \<in> set (calls (M env txt s)) \<longrightarrow>
         (\<exists>apikey tok url.
            config env ''NLP_KEY'' = Inr apikey \<and> get_token env apikey = Inr tok \<and>
            nlu_authenticator svc = Some (BearerTokenAuthenticator tok) \<and>
            calls (M env txt s) =
              [Config_get ''NLP_KEY'', IAM_get_token apikey,
               New_NLU ''2022-04-07'' (Some (BearerTokenAuthenticator tok)),
               Config_get ''NLP_BASE_URL'', Set_service_url url, NLU_analyze svc req] \<and>
            token (final (M env txt s)) = Some tok))
      \<and> calls (M env txt s) = calls (M env txt s')
      \<and> result (M env txt s) = result (M env txt s'))
   \<and> take 1 (calls (get_speech_to_text_result env file_path s)) = [Config_get ''STT_API_KEY'']
   \<and> (\<forall>apikey. config env ''STT_API_KEY'' = Inr apikey \<longrightarrow>
        take 2 (calls (get_speech_to_text_result env file_path s)) = [Config_get ''STT_API_KEY'', IAM_get_token apikey])
   \<and> (\<forall>apikey tok. config env ''STT_API_KEY'' = Inr apikey \<and> get_token env apikey = Inr tok \<longrightarrow>
        token (final (get_speech_to_text_result env file_path s)) = Some tok \<and>
        authenticator (final (get_speech_to_text_result env file_path s)) = Some (BearerTokenAuthenticator tok))
   \<and> (\<forall>apikey tok file url.
        config env ''STT_API_KEY'' = Inr apikey \<and> get_token env apikey = Inr tok \<and>
        open_rb env file_path = Inr file \<and> config env ''URL'' = Inr url \<longrightarrow>
        calls (get_speech_to_text_result env file_path s) =
          [Config_get ''STT_API_KEY'', IAM_get_token apikey, Open_rb file_path, Config_get ''URL'',
           Requests_post url
             [(''Authorization'', ''Bearer '' @ tok), (''Content-Type'', ''audio/mp3''),
              (''x-global-transaction-id'', ''presentation-skills-request'')] file])
   \<and> (\<forall>url headers file.
        Requests_post url headers file \<in> set (calls (get_speech_to_text_result env file_path s)) \<longrightarrow>
         (\<exists>apikey tok.
            config env ''STT_API_KEY'' = Inr apikey \<and> get_token env apikey = Inr tok \<and>
            map_of headers ''Authorization'' = Some (''Bearer '' @ tok) \<and>
            calls (get_speech_to_text_result env file_path s) =
              [Config_get ''STT_API_KEY'', IAM_get_token apikey, Open_rb file_path,
               Config_get ''URL'', Requests_post url headers file] \<and>
            token (final (get_speech_to_text_result env file_path s)) = Some tok))
   \<and> calls (get_speech_to_text_result env file_path s) = calls (get_speech_to_text_result env file_path s')
   \<and> result (get_speech_to_text_result env file_path s) = result (get_speech_to_text_result env file_path s')"
proof -
  have nlu: "take 1 (calls (M env txt s)) = [Config_get ''NLP_KEY'']
      \<and> (\<forall>apikey. config env ''NLP_KEY'' = Inr apikey \<longrightarrow>
         take 2 (calls (M env txt s)) = [Config_get ''NLP_KEY'', IAM_get_token apikey])
      \<and> (\<forall>apikey tok. config env ''NLP_KEY'' = Inr apikey \<and> get_token env apikey = Inr tok \<longrightarrow>
         token (final (M env txt s)) = Some tok \<and>
         authenticator (final (M env txt s)) = Some (BearerTokenAuthenticator tok))
      \<and> (\<forall>apikey tok url stored.
         config env ''NLP_KEY'' = Inr apikey \<and> get_token env apikey = Inr tok \<and>
         nlu_client env ''2022-04-07'' (Some (BearerTokenAuthenticator tok)) = Inr () \<and>
         config env ''NLP_BASE_URL'' = Inr url \<and> set_service_url env url = Inr stored \<longrightarrow>
         (\<exists>req. calls (M env txt s) =
              [Config_get ''NLP_KEY'', IAM_get_token apikey,
               New_NLU ''2022-04-07'' (Some (BearerTokenAuthenticator tok)),
               Config_get ''NLP_BASE_URL'', Set_service_url url,
               NLU_analyze \<lparr> nlu_version = ''2022-04-07'',
                             nlu_authenticator = Some (BearerTokenAuthenticator tok),
                             nlu_service_url = Some stored \<rparr> req]))
      \<and> (\<forall>svc req. NLU_analyze svc req \<in> set (calls (M env txt s)) \<longrightarrow>
         (\<exists>apikey tok url.
            config env ''NLP_KEY'' = Inr apikey \<and> get_token env apikey = Inr tok \<and>
            nlu_authenticator svc = Some (BearerTokenAuthenticator tok) \<and>
            calls (M env txt s) =
              [Config_get ''NLP_KEY'', IAM_get_token apikey,
               New_NLU ''2022-04-07'' (Some (BearerTokenAuthenticator tok)),
               Config_get ''NLP_BASE_URL'', Set_service_url url, NLU_analyze svc req] \<and>
            token (final (M env txt s)) = Some tok))
      \<and> calls (M env txt s) = calls (M env txt s')
      \<and> result (M env txt s) = result (M env txt s')"
    if "\<And>e t. M e t = and_then (get_natural_language_service e ''2022-04-07'')
                           (\<lambda>service. analyze_and_dump e service (r t))" for M r
  proof (intro conjI allI impI)
    show "take 1 (calls (M env txt s)) = [Config_get ''NLP_KEY'']"
      unfolding that by (rule nlu_starts_with_key)
  next
    fix apikey assume "config env ''NLP_KEY'' = Inr apikey"
    then show "take 2 (calls (M env txt s)) = [Config_get ''NLP_KEY'', IAM_get_token apikey]"
      unfolding that by (rule nlu_authenticates)
  next
    fix apikey tok
    assume k: "config env ''NLP_KEY'' = Inr apikey \<and> get_token env apikey = Inr tok"
    from nlu_holds_fresh_token [of env apikey tok "''2022-04-07''" "r txt" s] k
    show "token (final (M env txt s)) = Some tok"
      and "authenticator (final (M env txt s)) = Some (BearerTokenAuthenticator tok)"
      unfolding that by simp_all
  next
    fix apikey tok url stored
    assume "config env ''NLP_KEY'' = Inr apikey \<and> get_token env apikey = Inr tok \<and>
         nlu_client env ''2022-04-07'' (Some (BearerTokenAuthenticator tok)) = Inr () \<and>
         config env ''NLP_BASE_URL'' = Inr url \<and> set_service_url env url = Inr stored"
    then have "calls (M env txt s) =
              [Config_get ''NLP_KEY'', IAM_get_token apikey,
               New_NLU ''2022-04-07'' (Some (BearerTokenAuthenticator tok)),
               Config_get ''NLP_BASE_URL'', Set_service_url url,
               NLU_analyze \<lparr> nlu_version = ''2022-04-07'',
                             nlu_authenticator = Some (BearerTokenAuthenticator tok),
                             nlu_service_url = Some stored \<rparr> (r txt)]"
      unfolding that by (simp add: nlu_request_when_ready)
    then show "\<exists>req. calls (M env txt s) =
              [Config_get ''NLP_KEY'', IAM_get_token apikey,
               New_NLU ''2022-04-07'' (Some (BearerTokenAuthenticator tok)),
               Config_get ''NLP_BASE_URL'', Set_service_url url,
               NLU_analyze \<lparr> nlu_version = ''2022-04-07'',
                             nlu_authenticator = Some (BearerTokenAuthenticator tok),
                             nlu_service_url = Some stored \<rparr> req]"
      by (rule exI)
  next
    fix svc req
    assume "NLU_analyze svc req \<in> set (calls (M env txt s))"
    from nlu_request_issued [OF this [unfolded that]]
    show "\<exists>apikey tok url.
            config env ''NLP_KEY'' = Inr apikey \<and> get_token env apikey = Inr tok \<and>
            nlu_authenticator svc = Some (BearerTokenAuthenticator tok) \<and>
            calls (M env txt s) =
              [Config_get ''NLP_KEY'', IAM_get_token apikey,
               New_NLU ''2022-04-07'' (Some (BearerTokenAuthenticator tok)),
               Config_get ''NLP_BASE_URL'', Set_service_url url, NLU_analyze svc req] \<and>
            token (final (M env txt s)) = Some tok"
      unfolding that by auto
  next
    show "calls (M env txt s) = calls (M env txt s')"
      unfolding that using nlu_state_independent by blast
  next
    show "result (M env txt s) = result (M env txt s')"
      unfolding that using nlu_state_independent by blast
  qed
  have s1: "take 1 (calls (get_speech_to_text_result env file_path s)) = [Config_get ''STT_API_KEY'']"
    by (auto simp: get_speech_to_text_result_run calls_def final_def result_def Let_def
        split: sum.splits if_splits)
  have s2: "(\<forall>apikey. config env ''STT_API_KEY'' = Inr apikey \<longrightarrow>
        take 2 (calls (get_speech_to_text_result env file_path s)) = [Config_get ''STT_API_KEY'', IAM_get_token apikey])"
    by (auto simp: get_speech_to_text_result_run calls_def final_def result_def Let_def
        split: sum.splits if_splits)
  have s3: "(\<forall>apikey tok. config env ''STT_API_KEY'' = Inr apikey \<and> get_token env apikey = Inr tok \<longrightarrow>
        token (final (get_speech_to_text_result env file_path s)) = Some tok \<and>
        authenticator (final (get_speech_to_text_result env file_path s)) = Some (BearerTokenAuthenticator tok))"
    by (auto simp: get_speech_to_text_result_run calls_def final_def result_def Let_def
        split: sum.splits if_splits)
  have s4: "(\<forall>apikey tok file url.
        config env ''STT_API_KEY'' = Inr apikey \<and> get_token env apikey = Inr tok \<and>
        open_rb env file_path = Inr file \<and> config env ''URL'' = Inr url \<longrightarrow>
        calls (get_speech_to_text_result env file_path s) =
          [Config_get ''STT_API_KEY'', IAM_get_token apikey, Open_rb file_path, Config_get ''URL'',
           Requests_post url
             [(''Authorization'', ''Bearer '' @ tok), (''Content-Type'', ''audio/mp3''),
              (''x-global-transaction-id'', ''presentation-skills-request'')] file])"
    by (auto simp: get_speech_to_text_result_run calls_def final_def result_def Let_def
        split: sum.splits if_splits)
  have s5: "(\<forall>url headers file.
        Requests_post url headers file \<in> set (calls (get_speech_to_text_result env file_path s)) \<longrightarrow>
         (\<exists>apikey tok.
            config env ''STT_API_KEY'' = Inr apikey \<and> get_token env apikey = Inr tok \<and>
            map_of headers ''Authorization'' = Some (''Bearer '' @ tok) \<and>
            calls (get_speech_to_text_result env file_path s) =
              [Config_get ''STT_API_KEY'', IAM_get_token apikey, Open_rb file_path,
               Config_get ''URL'', Requests_post url headers file] \<and>
            token (final (get_speech_to_text_result env file_path s)) = Some tok))"
    by (auto simp: get_speech_to_text_result_run calls_def final_def result_def Let_def
        split: sum.splits if_splits)
  have s6: "calls (get_speech_to_text_result env file_path s) = calls (get_speech_to_text_result env file_path s')"
    by (auto simp: get_speech_to_text_result_run calls_def final_def result_def Let_def
        split: sum.splits if_splits)
  have s7: "result (get_speech_to_text_result env file_path s) = result (get_speech_to_text_result env file_path s')"
    by (auto simp: get_speech_to_text_result_run calls_def final_def result_def Let_def
        split: sum.splits if_splits)
  note five = nlu [of get_text_concept, OF get_text_concept_def]
    nlu [of get_text_emotion, OF get_text_emotion_def]
    nlu [of get_text_semantic_roles, OF get_text_semantic_roles_def]
    nlu [of get_text_sentiment, OF get_text_sentiment_def]
    nlu [of get_text_tone, OF get_text_tone_def]
  show ?thesis
    unfolding ball_simps by (intro conjI five s1 s2 s3 s4 s5 s6 s7 TrueI)
qed

text \<open>
  An instance that still holds a token from an earlier call ends each of the six operations
  holding the new token, and each run begins with the key lookup and the token request.
\<close>

theorem authenticate_per_call_witness:
  "token stale = Some ''stale''
   \<and> token (final (get_text_concept (demo_env 200) ''I am glad.'' stale))
       = Some ''token for value of NLP_KEY''
   \<and> token (final (get_text_emotion (demo_env 200) ''I am glad.'' stale))
       = Some ''token for value of NLP_KEY''
   \<and> token (final (get_text_semantic_roles (demo_env 200) ''I am glad.'' stale))
       = Some ''token for value of NLP_KEY''
   \<and> token (final (get_text_sentiment (demo_env 200) ''I am glad.'' stale))
       = Some ''token for value of NLP_KEY''
   \<and> token (final (get_text_tone (demo_env 200) ''I am glad.'' stale))
       = Some ''token for value of NLP_KEY''
   \<and> token (final (get_speech_to_text_result (demo_env 200) ''talk.mp3'' stale))
       = Some ''token for value of STT_API_KEY''
   \<and> take 2 (calls (get_text_tone (demo_env 200) ''I am glad.'' stale))
       = [Config_get ''NLP_KEY'', IAM_get_token ''value of NLP_KEY'']
   \<and> take 2 (calls (get_speech_to_text_result (demo_env 200) ''talk.mp3'' stale))
       = [Config_get ''STT_API_KEY'', IAM_get_token ''value of STT_API_KEY'']"
proof -
  note all = authenticate_per_call [of "demo_env 200" "''I am glad.''" stale stale "''talk.mp3''",
      unfolded ball_simps]
  have fresh: "token (final (M (demo_env 200) ''I am glad.'' stale)) = Some ''token for value of NLP_KEY''"
    if "\<forall>apikey tok. config (demo_env 200) ''NLP_KEY'' = Inr apikey \<and>
                      get_token (demo_env 200) apikey = Inr tok \<longrightarrow>
         token (final (M (demo_env 200) ''I am glad.'' stale)) = Some tok \<and>
         authenticator (final (M (demo_env 200) ''I am glad.'' stale))
           = Some (BearerTokenAuthenticator tok)" for M
    using that [rule_format, OF demo_key] by (elim conjE)
  from all have c1: "token (final (get_text_concept (demo_env 200) ''I am glad.'' stale))
       = Some ''token for value of NLP_KEY''"
    by (intro fresh) (elim conjE)
  from all have c2: "token (final (get_text_emotion (demo_env 200) ''I am glad.'' stale))
       = Some ''token for value of NLP_KEY''"
    by (intro fresh) (elim conjE)
  from all have c3: "token (final (get_text_semantic_roles (demo_env 200) ''I am glad.'' stale))
       = Some ''token for value of NLP_KEY''"
    by (intro fresh) (elim conjE)
  from all have c4: "token (final (get_text_sentiment (demo_env 200) ''I am glad.'' stale))
       = Some ''token for value of NLP_KEY''"
    by (intro fresh) (elim conjE)
  from all have c5: "token (final (get_text_tone (demo_env 200) ''I am glad.'' stale))
       = Some ''token for value of NLP_KEY''"
    by (intro fresh) (elim conjE)
  from all have "\<forall>apikey tok. config (demo_env 200) ''STT_API_KEY'' = Inr apikey \<and>
                      get_token (demo_env 200) apikey = Inr tok \<longrightarrow>
        token (final (get_speech_to_text_result (demo_env 200) ''talk.mp3'' stale)) = Some tok \<and>
        authenticator (final (get_speech_to_text_result (demo_env 200) ''talk.mp3'' stale))
          = Some (BearerTokenAuthenticator tok)"
    by (elim conjE)
  from this [rule_format, OF demo_stt_key]
  have c6: "token (final (get_speech_to_text_result (demo_env 200) ''talk.mp3'' stale))
       = Some ''token for value of STT_API_KEY''"
    by (elim conjE)
  from all have "\<forall>apikey. config (demo_env 200) ''NLP_KEY'' = Inr apikey \<longrightarrow>
         take 2 (calls (get_text_tone (demo_env 200) ''I am glad.'' stale))
           = [Config_get ''NLP_KEY'', IAM_get_token apikey]"
    by (elim conjE)
  from this [rule_format, OF demo_key [THEN conjunct1]]
  have c7: "take 2 (calls (get_text_tone (demo_env 200) ''I am glad.'' stale))
       = [Config_get ''NLP_KEY'', IAM_get_token ''value of NLP_KEY'']" .
  from all have "\<forall>apikey. config (demo_env 200) ''STT_API_KEY'' = Inr apikey \<longrightarrow>
        take 2 (calls (get_speech_to_text_result (demo_env 200) ''talk.mp3'' stale))
          = [Config_get ''STT_API_KEY'', IAM_get_token apikey]"
    by (elim conjE)
  from this [rule_format, OF demo_stt_key [THEN conjunct1]]
  have c8: "take 2 (calls (get_speech_to_text_result (demo_env 200) ''talk.mp3'' stale))
       = [Config_get ''STT_API_KEY'', IAM_get_token ''value of STT_API_KEY'']" .
  have c0: "token stale = Some ''stale''"
    by (simp add: stale_def)
  show ?thesis
    by (intro conjI c0 c1 c2 c3 c4 c5 c6 c7 c8)
qed

text \<open>
  C9. Every analyze request of \<open>get_text_sentiment\<close> asks for sentiment with
  \<^verbatim>\<open>document=False\<close> and with the text split at \<^verbatim>\<open>.\<close> as targets. The request is issued,
  as the last call, when the lookups, the token request, the client's constructor and
  \<^verbatim>\<open>set_service_url\<close> succeed. For a text that ends in a period the last target is the
  empty string; a text without a period is its own single target.
\<close>

theorem get_text_sentiment_targets:
  "(\<forall>svc req. NLU_analyze svc req \<in> set (calls (get_text_sentiment env txt s)) \<longrightarrow>
      analyze_text req = txt \<and>
      analyze_features req =
        Features_default \<lparr> sentiment := Some (SentimentOptions False (py_split CHR ''.'' txt)) \<rparr>)
   \<and> (\<forall>apikey tok url stored.
        config env ''NLP_KEY'' = Inr apikey \<and> get_token env apikey = Inr tok \<and>
        nlu_client env ''2022-04-07'' (Some (BearerTokenAuthenticator tok)) = Inr () \<and>
        config env ''NLP_BASE_URL'' = Inr url \<and> set_service_url env url = Inr stored \<longrightarrow>
        (\<exists>svc req. last (calls (get_text_sentiment env txt s)) = NLU_analyze svc req \<and>
           sentiment (analyze_features req) =
             Some (SentimentOptions False (py_split CHR ''.'' txt))))
   \<and> (txt \<noteq> [] \<and> last txt = CHR ''.'' \<longrightarrow> last (py_split CHR ''.'' txt) = [])
   \<and> (CHR ''.'' \<notin> set txt \<longrightarrow> py_split CHR ''.'' txt = [txt])"
  unfolding get_text_sentiment_def
  by (intro conjI allI impI; (drule nlu_request_issued)?;
      (auto simp: Features_default_def nlu_request_when_ready py_split_last_empty
         py_split_no_sep)[1])

theorem get_text_sentiment_targets_witness:
  "(\<exists>svc req. last (calls (get_text_sentiment (demo_env 200) ''Fine. Bad.'' IBM_Watson_init))
                 = NLU_analyze svc req
       \<and> sentiment (analyze_features req) = Some (SentimentOptions False [''Fine'', '' Bad'', []]))
   \<and> last (py_split CHR ''.'' ''Fine. Bad.'') = []
   \<and> py_split CHR ''.'' ''Fine'' = [''Fine'']"
proof -
  note all = get_text_sentiment_targets [of "demo_env 200" "''Fine. Bad.''" IBM_Watson_init]
  from all have issued: "\<forall>apikey tok url stored.
        config (demo_env 200) ''NLP_KEY'' = Inr apikey \<and> get_token (demo_env 200) apikey = Inr tok \<and>
        nlu_client (demo_env 200) ''2022-04-07'' (Some (BearerTokenAuthenticator tok)) = Inr () \<and>
        config (demo_env 200) ''NLP_BASE_URL'' = Inr url \<and>
        set_service_url (demo_env 200) url = Inr stored \<longrightarrow>
        (\<exists>svc req. last (calls (get_text_sentiment (demo_env 200) ''Fine. Bad.'' IBM_Watson_init))
                      = NLU_analyze svc req \<and>
           sentiment (analyze_features req) =
             Some (SentimentOptions False (py_split CHR ''.'' ''Fine. Bad.'')))"
    by (elim conjE)
  from issued [rule_format, OF demo_ready] obtain svc req where
    l: "last (calls (get_text_sentiment (demo_env 200) ''Fine. Bad.'' IBM_Watson_init))
          = NLU_analyze svc req"
    and t: "sentiment (analyze_features req)
          = Some (SentimentOptions False (py_split CHR ''.'' ''Fine. Bad.''))"
    by (elim exE conjE)
  have sp: "py_split CHR ''.'' ''Fine. Bad.'' = [''Fine'', '' Bad'', []]"
    by simp
  have ends: "''Fine. Bad.'' \<noteq> [] \<and> last ''Fine. Bad.'' = CHR ''.''"
    by simp
  from all have "''Fine. Bad.'' \<noteq> [] \<and> last ''Fine. Bad.'' = CHR ''.''
      \<longrightarrow> last (py_split CHR ''.'' ''Fine. Bad.'') = []"
    by (elim conjE)
  from this [rule_format, OF ends] have e: "last (py_split CHR ''.'' ''Fine. Bad.'') = []" .
  have nodot: "CHR ''.'' \<notin> set ''Fine''"
    by simp
  from get_text_sentiment_targets [of "demo_env 200" "''Fine''" IBM_Watson_init]
  have "CHR ''.'' \<notin> set ''Fine'' \<longrightarrow> py_split CHR ''.'' ''Fine'' = [''Fine'']"
    by (elim conjE)
  from this [rule_format, OF nodot] have one: "py_split CHR ''.'' ''Fine'' = [''Fine'']" .
  from l t [unfolded sp] have "\<exists>svc req.
       last (calls (get_text_sentiment (demo_env 200) ''Fine. Bad.'' IBM_Watson_init))
                 = NLU_analyze svc req
       \<and> sentiment (analyze_features req) = Some (SentimentOptions False [''Fine'', '' Bad'', []])"
    by (intro exI [of _ svc] exI [of _ req] conjI)
  with e one show ?thesis by (intro conjI)
qed

text \<open>
  C10. Every analyze request of the five methods goes to a client of version
  \<^verbatim>\<open>2022-04-07\<close>. \<open>get_text_concept\<close>, \<open>get_text_emotion\<close>,
  \<open>get_text_semantic_roles\<close> and \<open>get_text_sentiment\<close> pass the language \<^verbatim>\<open>en\<close>;
  \<open>get_text_tone\<close> passes no language and asks for classifications with the model
  \<^verbatim>\<open>tone-classifications-en-v1\<close>. Each method issues its request, as its last call, when
  the lookups, the token request, the client's constructor and \<^verbatim>\<open>set_service_url\<close>
  succeed.
\<close>

theorem analyze_request_parameters:
  "(\<forall>M \<in> {get_text_concept, get_text_emotion, get_text_semantic_roles, get_text_sentiment}.
      \<forall>svc req. NLU_analyze svc req \<in> set (calls (M env txt s)) \<longrightarrow>
        nlu_version svc = ''2022-04-07'' \<and> analyze_language req = Some ''en'')
   \<and> (\<forall>svc req. NLU_analyze svc req \<in> set (calls (get_text_tone env txt s)) \<longrightarrow>
        nlu_version svc = ''2022-04-07'' \<and> analyze_language req = None \<and>
        classifications (analyze_features req) =
          Some (ClassificationsOptions ''tone-classifications-en-v1''))
   \<and> (\<forall>M \<in> {get_text_concept, get_text_emotion, get_text_semantic_roles, get_text_sentiment,
             get_text_tone}.
      \<forall>apikey tok url stored.
        config env ''NLP_KEY'' = Inr apikey \<and> get_token env apikey = Inr tok \<and>
        nlu_client env ''2022-04-07'' (Some (BearerTokenAuthenticator tok)) = Inr () \<and>
        config env ''NLP_BASE_URL'' = Inr url \<and> set_service_url env url = Inr stored \<longrightarrow>
        (\<exists>svc req. last (calls (M env txt s)) = NLU_analyze svc req \<and>
                    NLU_analyze svc req \<in> set (calls (M env txt s))))"
  unfolding ball_simps get_text_concept_def get_text_emotion_def get_text_semantic_roles_def
    get_text_sentiment_def get_text_tone_def
  by (intro conjI allI impI; (drule nlu_request_issued)?;
      (auto simp: Features_default_def nlu_request_when_ready)[1])

theorem analyze_request_parameters_witness:
  "NLU_analyze
      \<lparr> nlu_version = ''2022-04-07'',
        nlu_authenticator = Some (BearerTokenAuthenticator ''token for value of NLP_KEY''),
        nlu_service_url = Some ''value of NLP_BASE_URL'' \<rparr>
      \<lparr> analyze_text = ''Good day.'',
        analyze_features = Features_default \<lparr> emotion := Some EmotionOptions \<rparr>,
        analyze_language = Some ''en'' \<rparr>
     \<in> set (calls (get_text_emotion (demo_env 200) ''Good day.'' IBM_Watson_init))
   \<and> (\<exists>svc req. last (calls (get_text_tone (demo_env 200) ''Good day.'' IBM_Watson_init))
                    = NLU_analyze svc req
         \<and> nlu_version svc = ''2022-04-07'' \<and> analyze_language req = None
         \<and> classifications (analyze_features req)
             = Some (ClassificationsOptions ''tone-classifications-en-v1''))
   \<and> (\<exists>svc req. last (calls (get_text_concept (demo_env 200) ''Good day.'' IBM_Watson_init))
                    = NLU_analyze svc req
         \<and> nlu_version svc = ''2022-04-07'' \<and> analyze_language req = Some ''en'')"
proof -
  have sent: "NLU_analyze
      \<lparr> nlu_version = ''2022-04-07'',
        nlu_authenticator = Some (BearerTokenAuthenticator ''token for value of NLP_KEY''),
        nlu_service_url = Some ''value of NLP_BASE_URL'' \<rparr>
      \<lparr> analyze_text = ''Good day.'',
        analyze_features = Features_default \<lparr> emotion := Some EmotionOptions \<rparr>,
        analyze_language = Some ''en'' \<rparr>
     \<in> set (calls (get_text_emotion (demo_env 200) ''Good day.'' IBM_Watson_init))"
    by (simp add: get_text_emotion_def nlu_request_when_ready demo_env_simps)
  note all = analyze_request_parameters [of "demo_env 200" "''Good day.''" IBM_Watson_init,
      unfolded ball_simps]
  from all have issued: "\<forall>apikey tok url stored.
        config (demo_env 200) ''NLP_KEY'' = Inr apikey \<and> get_token (demo_env 200) apikey = Inr tok \<and>
        nlu_client (demo_env 200) ''2022-04-07'' (Some (BearerTokenAuthenticator tok)) = Inr () \<and>
        config (demo_env 200) ''NLP_BASE_URL'' = Inr url \<and>
        set_service_url (demo_env 200) url = Inr stored \<longrightarrow>
        (\<exists>svc req. last (calls (get_text_tone (demo_env 200) ''Good day.'' IBM_Watson_init))
                      = NLU_analyze svc req \<and>
                    NLU_analyze svc req
                      \<in> set (calls (get_text_tone (demo_env 200) ''Good day.'' IBM_Watson_init)))"
    by (elim conjE)
  from issued [rule_format, OF demo_ready] obtain svc req where
    l: "last (calls (get_text_tone (demo_env 200) ''Good day.'' IBM_Watson_init)) = NLU_analyze svc req"
    and m: "NLU_analyze svc req \<in> set (calls (get_text_tone (demo_env 200) ''Good day.'' IBM_Watson_init))"
    by (elim exE conjE)
  from all have tone: "\<forall>svc req.
        NLU_analyze svc req \<in> set (calls (get_text_tone (demo_env 200) ''Good day.'' IBM_Watson_init)) \<longrightarrow>
        nlu_version svc = ''2022-04-07'' \<and> analyze_language req = None \<and>
        classifications (analyze_features req) =
          Some (ClassificationsOptions ''tone-classifications-en-v1'')"
    by (elim conjE)
  from tone [rule_format, OF m] l have t: "\<exists>svc req.
         last (calls (get_text_tone (demo_env 200) ''Good day.'' IBM_Watson_init)) = NLU_analyze svc req
         \<and> nlu_version svc = ''2022-04-07'' \<and> analyze_language req = None
         \<and> classifications (analyze_features req)
             = Some (ClassificationsOptions ''tone-classifications-en-v1'')"
    by (intro exI [of _ svc] exI [of _ req]) (elim conjE, intro conjI)
  from all have issued': "\<forall>apikey tok url stored.
        config (demo_env 200) ''NLP_KEY'' = Inr apikey \<and> get_token (demo_env 200) apikey = Inr tok \<and>
        nlu_client (demo_env 200) ''2022-04-07'' (Some (BearerTokenAuthenticator tok)) = Inr () \<and>
        config (demo_env 200) ''NLP_BASE_URL'' = Inr url \<and>
        set_service_url (demo_env 200) url = Inr stored \<longrightarrow>
        (\<exists>svc req. last (calls (get_text_concept (demo_env 200) ''Good day.'' IBM_Watson_init))
                      = NLU_analyze svc req \<and>
                    NLU_analyze svc req
                      \<in> set (calls (get_text_concept (demo_env 200) ''Good day.'' IBM_Watson_init)))"
    by (elim conjE)
  from issued' [rule_format, OF demo_ready] obtain svc' req' where
    l': "last (calls (get_text_concept (demo_env 200) ''Good day.'' IBM_Watson_init))
           = NLU_analyze svc' req'"
    and m': "NLU_analyze svc' req'
           \<in> set (calls (get_text_concept (demo_env 200) ''Good day.'' IBM_Watson_init))"
    by (elim exE conjE)
  from all have concept: "\<forall>svc req.
        NLU_analyze svc req \<in> set (calls (get_text_concept (demo_env 200) ''Good day.'' IBM_Watson_init)) \<longrightarrow>
        nlu_version svc = ''2022-04-07'' \<and> analyze_language req = Some ''en''"
    by (elim conjE)
  from concept [rule_format, OF m'] l' have c: "\<exists>svc req.
         last (calls (get_text_concept (demo_env 200) ''Good day.'' IBM_Watson_init)) = NLU_analyze svc req
         \<and> nlu_version svc = ''2022-04-07'' \<and> analyze_language req = Some ''en''"
    by (intro exI [of _ svc'] exI [of _ req']) (elim conjE, intro conjI)
  from sent t c show ?thesis by (intro conjI)
qed





section \<open>Properties of text_to_speech.py\<close>

text \<open>
  C4. For every text and output filename, \<open>create_speech_from_text\<close> raises
  \<open>NameError\<close> for the name \<open>config\<close>, whatever the SDK would do: the name is not bound in the
  module, since its import is commented out. The exception comes before any call is made (no
  speech configuration is constructed, the SDK is not invoked, so no audio is written), and no
  list is returned.
\<close>

theorem create_speech_from_text_NameError:
  "load_global text_to_speech_globals ''config'' = Inl (NameError ''config'')
   \<and> fst (create_speech_from_text sdk txt output_filename) = Inl (NameError ''config'')
   \<and> snd (create_speech_from_text sdk txt output_filename) = []
   \<and> (\<forall>wbs. fst (create_speech_from_text sdk txt output_filename) \<noteq> Inr wbs)"
  by (simp add: create_speech_from_text_raises config_unbound)

text \<open>
  C1. Whenever the body returns a list, under any globals and against any SDK, no record of
  the list has a space in its text, and every record collected from the events of the
  synthesis whose text has no space is in the list: as multisets, the list is the collected
  records without those whose text has a space. \<open>create_speech_from_text\<close> is the body
  under the module's globals.
\<close>

theorem returned_list_single_words:
  "(fst (create_speech_from_text_in g sdk txt output_filename) = Inr wbs \<longrightarrow>
      (\<forall>item \<in> set wbs. CHR '' '' \<notin> set (text item)) \<and>
      (\<exists>synthesizer ssml evts.
          Speak_ssml synthesizer ssml
            \<in> set (snd (create_speech_from_text_in g sdk txt output_filename)) \<and>
          speak_ssml sdk synthesizer ssml = Inr evts \<and>
          (\<forall>item \<in> set (foldl (\<lambda>wbs e. speech_synthesizer_word_boundary_cb e wbs) [] evts).
              CHR '' '' \<notin> set (text item) \<longrightarrow> item \<in> set wbs) \<and>
          mset wbs =
            mset (filter (\<lambda>item. CHR '' '' \<notin> set (text item))
                    (foldl (\<lambda>wbs e. speech_synthesizer_word_boundary_cb e wbs) [] evts))))
   \<and> create_speech_from_text sdk txt output_filename =
       create_speech_from_text_in text_to_speech_globals sdk txt output_filename"
proof (intro conjI impI)
  assume r: "fst (create_speech_from_text_in g sdk txt output_filename) = Inr wbs"
  from create_speech_from_text_in_returned [OF r] obtain key reg evts synthesizer ssml where
    sp: "speak_ssml sdk synthesizer ssml = Inr evts"
    and w: "wbs = sort_key text_offset
                   (filter (\<lambda>item. CHR '' '' \<notin> set (text item))
                      (foldl (\<lambda>wbs e. speech_synthesizer_word_boundary_cb e wbs) [] evts))"
    and c: "Speak_ssml synthesizer ssml
              \<in> set (snd (create_speech_from_text_in g sdk txt output_filename))"
    by auto
  from w show "\<forall>item \<in> set wbs. CHR '' '' \<notin> set (text item)"
    by simp
  from w have "\<forall>item \<in> set (foldl (\<lambda>wbs e. speech_synthesizer_word_boundary_cb e wbs) [] evts).
              CHR '' '' \<notin> set (text item) \<longrightarrow> item \<in> set wbs"
    by simp
  moreover from w have "mset wbs =
            mset (filter (\<lambda>item. CHR '' '' \<notin> set (text item))
                    (foldl (\<lambda>wbs e. speech_synthesizer_word_boundary_cb e wbs) [] evts))"
    by simp
  ultimately show "\<exists>synthesizer ssml evts.
          Speak_ssml synthesizer ssml
            \<in> set (snd (create_speech_from_text_in g sdk txt output_filename)) \<and>
          speak_ssml sdk synthesizer ssml = Inr evts \<and>
          (\<forall>item \<in> set (foldl (\<lambda>wbs e. speech_synthesizer_word_boundary_cb e wbs) [] evts).
              CHR '' '' \<notin> set (text item) \<longrightarrow> item \<in> set wbs) \<and>
          mset wbs =
            mset (filter (\<lambda>item. CHR '' '' \<notin> set (text item))
                    (foldl (\<lambda>wbs e. speech_synthesizer_word_boundary_cb e wbs) [] evts))"
    using sp c by blast
next
  show "create_speech_from_text sdk txt output_filename =
       create_speech_from_text_in text_to_speech_globals sdk txt output_filename"
    by (simp add: create_speech_from_text_def)
qed

text \<open>
  Under globals that bind \<^verbatim>\<open>config\<close>, the sample synthesis collects three records and the
  list returned holds the two single words.
\<close>

theorem returned_list_single_words_witness:
  "fst (create_speech_from_text_in (globals_with_config demo_config) demo_sdk ''Hello world''
          ''out.mp3'')
     = Inr [\<lparr> audio_offset = 101 / 2, duration = 3000000, text = ''Hello'', text_offset = 0,
              word_length = 5 \<rparr>,
            \<lparr> audio_offset = 101 / 2, duration = 3500000, text = ''world'', text_offset = 6,
              word_length = 5 \<rparr>]
   \<and> \<not> (\<exists>item \<in> set [\<lparr> audio_offset = 101 / 2, duration = 3000000, text = ''Hello'',
                            text_offset = 0, word_length = 5 \<rparr>,
                          \<lparr> audio_offset = 101 / 2, duration = (3500000 :: int), text = ''world'',
                            text_offset = 6, word_length = 5 \<rparr>].
          CHR '' '' \<in> set (text item))
   \<and> length (foldl (\<lambda>wbs e. speech_synthesizer_word_boundary_cb e wbs) [] demo_events) = 3"
proof -
  have r: "fst (create_speech_from_text_in (globals_with_config demo_config) demo_sdk ''Hello world''
          ''out.mp3'')
     = Inr [\<lparr> audio_offset = 101 / 2, duration = 3000000, text = ''Hello'', text_offset = 0,
              word_length = 5 \<rparr>,
            \<lparr> audio_offset = 101 / 2, duration = 3500000, text = ''world'', text_offset = 6,
              word_length = 5 \<rparr>]"
    by (simp add: demo_run)
  from returned_list_single_words [of "globals_with_config demo_config" demo_sdk "''Hello world''"
      "''out.mp3''"] r
  have "\<forall>item \<in> set [\<lparr> audio_offset = 101 / 2, duration = 3000000, text = ''Hello'',
                            text_offset = 0, word_length = 5 \<rparr>,
                          \<lparr> audio_offset = 101 / 2, duration = (3500000 :: int), text = ''world'',
                            text_offset = 6, word_length = 5 \<rparr>].
          CHR '' '' \<notin> set (text item)"
    by blast
  then have "\<not> (\<exists>item \<in> set [\<lparr> audio_offset = 101 / 2, duration = 3000000, text = ''Hello'',
                            text_offset = 0, word_length = 5 \<rparr>,
                          \<lparr> audio_offset = 101 / 2, duration = (3500000 :: int), text = ''world'',
                            text_offset = 6, word_length = 5 \<rparr>].
          CHR '' '' \<in> set (text item))"
    by blast
  moreover have "length (foldl (\<lambda>wbs e. speech_synthesizer_word_boundary_cb e wbs) [] demo_events) = 3"
    by (simp add: demo_events_def speech_synthesizer_word_boundary_cb_def)
  ultimately show ?thesis using r by blast
qed

text \<open>
  C2. Whenever the body returns a list, under any globals and against any SDK, the list is
  sorted by \<open>text_offset\<close> (each record's offset is at most the next one's) and is a
  permutation of the filtered records; it is the stable sort of them, as Python's
  \<^verbatim>\<open>sorted\<close> is stable. \<open>create_speech_from_text\<close> is the body under the module's
  globals.
\<close>

theorem returned_list_sorted:
  "(fst (create_speech_from_text_in g sdk txt output_filename) = Inr wbs \<longrightarrow>
      sorted (map text_offset wbs) \<and>
      (\<forall>i. Suc i < length wbs \<longrightarrow> text_offset (wbs ! i) \<le> text_offset (wbs ! Suc i)) \<and>
      (\<exists>synthesizer ssml evts.
          Speak_ssml synthesizer ssml
            \<in> set (snd (create_speech_from_text_in g sdk txt output_filename)) \<and>
          speak_ssml sdk synthesizer ssml = Inr evts \<and>
          mset wbs =
            mset (filter (\<lambda>item. CHR '' '' \<notin> set (text item))
                    (foldl (\<lambda>wbs e. speech_synthesizer_word_boundary_cb e wbs) [] evts)) \<and>
          wbs = sort_key text_offset
                  (filter (\<lambda>item. CHR '' '' \<notin> set (text item))
                     (foldl (\<lambda>wbs e. speech_synthesizer_word_boundary_cb e wbs) [] evts))))
   \<and> create_speech_from_text sdk txt output_filename =
       create_speech_from_text_in text_to_speech_globals sdk txt output_filename"
proof (intro conjI impI)
  assume r: "fst (create_speech_from_text_in g sdk txt output_filename) = Inr wbs"
  from create_speech_from_text_in_returned [OF r] obtain key reg evts synthesizer ssml where
    sp: "speak_ssml sdk synthesizer ssml = Inr evts"
    and w: "wbs = sort_key text_offset
                   (filter (\<lambda>item. CHR '' '' \<notin> set (text item))
                      (foldl (\<lambda>wbs e. speech_synthesizer_word_boundary_cb e wbs) [] evts))"
    and c: "Speak_ssml synthesizer ssml
              \<in> set (snd (create_speech_from_text_in g sdk txt output_filename))"
    by auto
  from w show s: "sorted (map text_offset wbs)"
    by simp
  from s have "\<forall>i. Suc i < length (map text_offset wbs) \<longrightarrow>
                 map text_offset wbs ! i \<le> map text_offset wbs ! Suc i"
    by (simp only: sorted_iff_nth_Suc)
  then show "\<forall>i. Suc i < length wbs \<longrightarrow> text_offset (wbs ! i) \<le> text_offset (wbs ! Suc i)"
    by simp
  from w have "mset wbs =
            mset (filter (\<lambda>item. CHR '' '' \<notin> set (text item))
                    (foldl (\<lambda>wbs e. speech_synthesizer_word_boundary_cb e wbs) [] evts))"
    by simp
  with w sp c show "\<exists>synthesizer ssml evts.
          Speak_ssml synthesizer ssml
            \<in> set (snd (create_speech_from_text_in g sdk txt output_filename)) \<and>
          speak_ssml sdk synthesizer ssml = Inr evts \<and>
          mset wbs =
            mset (filter (\<lambda>item. CHR '' '' \<notin> set (text item))
                    (foldl (\<lambda>wbs e. speech_synthesizer_word_boundary_cb e wbs) [] evts)) \<and>
          wbs = sort_key text_offset
                  (filter (\<lambda>item. CHR '' '' \<notin> set (text item))
                     (foldl (\<lambda>wbs e. speech_synthesizer_word_boundary_cb e wbs) [] evts))"
    by blast
next
  show "create_speech_from_text sdk txt output_filename =
       create_speech_from_text_in text_to_speech_globals sdk txt output_filename"
    by (simp add: create_speech_from_text_def)
qed

text \<open>
  The events of the sample synthesis arrive with text offsets 6, 0, 0; the list returned has
  offsets 0, 6.
\<close>

theorem returned_list_sorted_witness:
  "map evt_text_offset demo_events = [6, 0, 0]
   \<and> map_sum id (map text_offset)
        (fst (create_speech_from_text_in (globals_with_config demo_config) demo_sdk ''Hello world''
                ''hello.mp3''))
     = Inr [0, 6]
   \<and> sorted [0, 6 :: int]"
proof -
  obtain wbs where r: "fst (create_speech_from_text_in (globals_with_config demo_config) demo_sdk
        ''Hello world'' ''hello.mp3'') = Inr wbs"
    and m: "map text_offset wbs = [0, 6]"
    by (simp add: demo_run)
  from returned_list_sorted [of "globals_with_config demo_config" demo_sdk "''Hello world''"
      "''hello.mp3''" wbs] r
  have "sorted (map text_offset wbs)"
    by blast
  with m have "sorted [0, 6 :: int]"
    by simp
  moreover have "map evt_text_offset demo_events = [6, 0, 0]"
    by (simp add: demo_events_def)
  moreover from r m have "map_sum id (map text_offset)
        (fst (create_speech_from_text_in (globals_with_config demo_config) demo_sdk ''Hello world''
                ''hello.mp3''))
     = Inr [0, 6]"
    by simp
  ultimately show ?thesis by blast
qed



subsection \<open>The callback\<close>

lemma audio_offset_is_milliseconds_plus_half:
  "map audio_offset (speech_synthesizer_word_boundary_cb e []) =
     [of_int (evt_audio_offset e) / 10000 + 1 / 2]"
  by (simp add: speech_synthesizer_word_boundary_cb_def add_divide_distrib)

lemma ticks_never_seconds: "(of_int (x + 5000) :: rat) / 10000 \<noteq> of_int x / 10000000"
proof
  assume "(of_int (x + 5000) :: rat) / 10000 = of_int x / 10000000"
  then have "(of_int (x + 5000) :: rat) * 1000 = of_int x"
    by (simp add: divide_simps)
  then have "(of_int ((x + 5000) * 1000) :: rat) = of_int x"
    by simp
  then have "(x + 5000) * 1000 = x"
    by (simp only: of_int_eq_iff)
  then have "x * 1000 + 5000000 = x"
    by (simp add: distrib_right)
  then have "999 * x = - 5000000"
    by linarith
  then have "(999 :: int) dvd - 5000000"
    by (metis dvd_triv_left)
  then show False by simp
qed

lemma audio_offset_never_seconds:
  "map audio_offset (speech_synthesizer_word_boundary_cb e []) \<noteq>
     [of_int (evt_audio_offset e) / 10000000]"
  using ticks_never_seconds [of "evt_audio_offset e"]
  by (simp add: speech_synthesizer_word_boundary_cb_def)

text \<open>
  C5. For an event at 500000 ticks of 100 nanoseconds (0.05 seconds) the callback stores the
  audio offset 50.5, and for an event at offset 0 it stores 0.5: the field is the offset in
  milliseconds plus one half, not in seconds. The duration is stored as the event gives it.
\<close>

theorem word_boundary_cb_audio_offset:
  "speech_synthesizer_word_boundary_cb
     \<lparr> evt_audio_offset = 500000, evt_duration = (3000000 :: int), evt_text = ''Hello'',
       evt_text_offset = 0, evt_word_length = 5 \<rparr> []
   = [\<lparr> audio_offset = 101 / 2, duration = 3000000, text = ''Hello'', text_offset = 0,
        word_length = 5 \<rparr>]
   \<and> map audio_offset (speech_synthesizer_word_boundary_cb
     \<lparr> evt_audio_offset = 0, evt_duration = (3000000 :: int), evt_text = ''Hello'',
       evt_text_offset = 0, evt_word_length = 5 \<rparr> []) = [1 / 2]"
  by (simp add: speech_synthesizer_word_boundary_cb_def)

end
